theory Spec2Isabelle
  imports Complex_Main
begin

section \<open>Data model\<close>

text \<open>
  The repository holds three versions of one browser program: \<^verbatim>\<open>src/main.js\<close> (flat
  ground at height 0, no body bob), \<^verbatim>\<open>src/unnamed/part_001\<close> (flat ground, body bob) and
  \<^verbatim>\<open>src/unnamed/part_000\<close> (ground is a loaded mesh probed by a downward ray). Each one
  runs \<^verbatim>\<open>animate()\<close> once per display frame on global mutable objects. Here a frame is
  a function from the state before the frame to the state after it; what the frame reads
  from outside (the held keys, the clock, the loaded mesh) is an argument.

  JavaScript numbers are modelled as real numbers: rounding of IEEE doubles is not part
  of the model, so \<open>exactly\<close> below means exactly in real arithmetic.
\<close>

text \<open>\<^verbatim>\<open>THREE.Vector3\<close>, with the three methods the frames use.\<close>

record vec3 =
  vx :: real
  vy :: real
  vz :: real

definition vec_add :: "vec3 \<Rightarrow> vec3 \<Rightarrow> vec3" where
  "vec_add a b = \<lparr>vx = vx a + vx b, vy = vy a + vy b, vz = vz a + vz b\<rparr>"

definition multiplyScalar :: "vec3 \<Rightarrow> real \<Rightarrow> vec3" where
  "multiplyScalar a k = \<lparr>vx = vx a * k, vy = vy a * k, vz = vz a * k\<rparr>"

text \<open>\<^verbatim>\<open>v.applyAxisAngle(new THREE.Vector3(0, 1, 0), angle)\<close>: rotation about the
  vertical axis, the only axis the program passes.\<close>

definition applyAxisAngle_Y :: "vec3 \<Rightarrow> real \<Rightarrow> vec3" where
  "applyAxisAngle_Y a angle =
     \<lparr>vx = vx a * cos angle + vz a * sin angle,
      vy = vy a,
      vz = vz a * cos angle - vx a * sin angle\<rparr>"

text \<open>\<^verbatim>\<open>THREE.MathUtils.lerp(x, y, t)\<close>.\<close>

definition lerp :: "real \<Rightarrow> real \<Rightarrow> real \<Rightarrow> real" where
  "lerp a b t = (1 - t) * a + t * b"

text \<open>
  The \<^verbatim>\<open>keys\<close> object: a dictionary from \<^verbatim>\<open>KeyboardEvent.code\<close> to a boolean. A code
  that was never written reads \<^verbatim>\<open>undefined\<close>, which every test in the program treats as
  false.
\<close>

type_synonym keys = "string \<Rightarrow> bool"

definition no_keys :: keys where
  "no_keys = (\<lambda>c. False)"

text \<open>The \<^verbatim>\<open>keydown\<close> and \<^verbatim>\<open>keyup\<close> listeners of \<^verbatim>\<open>part_000\<close> and \<^verbatim>\<open>part_001\<close>: every
  code is stored.\<close>

definition keydown :: "string \<Rightarrow> keys \<Rightarrow> keys" where
  "keydown code ks = ks(code := True)"

definition keyup :: "string \<Rightarrow> keys \<Rightarrow> keys" where
  "keyup code ks = ks(code := False)"

text \<open>The listeners of \<^verbatim>\<open>main.js\<close> (lines 153--163): its \<^verbatim>\<open>keys\<close> object is created with
  six properties, and an event whose code is not one of them is ignored.\<close>

definition main_codes :: "string list" where
  "main_codes = [''ArrowUp'', ''ArrowDown'', ''ArrowLeft'', ''ArrowRight'', ''Space'', ''Shift'']"

definition main_keydown :: "string \<Rightarrow> keys \<Rightarrow> keys" where
  "main_keydown code ks = (if code \<in> set main_codes then ks(code := True) else ks)"

definition main_keyup :: "string \<Rightarrow> keys \<Rightarrow> keys" where
  "main_keyup code ks = (if code \<in> set main_codes then ks(code := False) else ks)"

text \<open>
  What all three versions keep between frames: the \<^verbatim>\<open>stickman\<close> group's position and
  its rotation about the vertical axis, the \<^verbatim>\<open>rotation.x\<close> of the four limbs, and the
  fields of the \<^verbatim>\<open>state\<close> object. The constants of \<^verbatim>\<open>state\<close> (gravity, speeds) are
  fields too, as in the source; no frame writes them.
\<close>

record figure =
  position :: vec3
  rotation_y :: real
  leftArm :: real
  rightArm :: real
  leftLeg :: real
  rightLeg :: real
  isWalking :: bool
  isRunning :: bool
  isJumping :: bool
  velocity :: vec3
  jumpForce :: real
  gravity :: real
  runSpeed :: real
  turnSpeed :: real

text \<open>\<^verbatim>\<open>src/main.js\<close> adds \<^verbatim>\<open>state.direction\<close> and \<^verbatim>\<open>state.speed\<close>.\<close>

record main_state = figure +
  direction :: vec3
  speed :: real

text \<open>\<^verbatim>\<open>part_000\<close> and \<^verbatim>\<open>part_001\<close> add \<^verbatim>\<open>state.walkSpeed\<close> and
  \<^verbatim>\<open>state.groundLevel\<close>.\<close>

record part_state = figure +
  walkSpeed :: real
  groundLevel :: real

definition zero3 :: vec3 where
  "zero3 = \<lparr>vx = 0, vy = 0, vz = 0\<rparr>"

definition legLength :: real where
  "legLength = 1.3 * 1.8"

text \<open>The state when \<^verbatim>\<open>animate()\<close> is first called, in \<^verbatim>\<open>main.js\<close>.\<close>

definition main_init :: main_state where
  "main_init =
     \<lparr>position = zero3, rotation_y = 0,
      leftArm = 0, rightArm = 0, leftLeg = 0, rightLeg = 0,
      isWalking = False, isRunning = False, isJumping = False,
      velocity = zero3, jumpForce = 0, gravity = - 0.01,
      runSpeed = 0.1, turnSpeed = 0.05,
      direction = zero3, speed = 0.05\<rparr>"

text \<open>The state when \<^verbatim>\<open>animate()\<close> is first called, in \<^verbatim>\<open>part_000\<close> and
  \<^verbatim>\<open>part_001\<close>: the figure stands at height \<^verbatim>\<open>legLength\<close>.\<close>

definition part_init :: part_state where
  "part_init =
     \<lparr>position = \<lparr>vx = 0, vy = legLength, vz = 0\<rparr>, rotation_y = 0,
      leftArm = 0, rightArm = 0, leftLeg = 0, rightLeg = 0,
      isWalking = False, isRunning = False, isJumping = False,
      velocity = zero3, jumpForce = 0, gravity = - 0.02,
      runSpeed = 0.12, turnSpeed = 0.06,
      walkSpeed = 0.05, groundLevel = legLength\<rparr>"

section \<open>The frame of \<^verbatim>\<open>part_001\<close> (flat ground)\<close>

text \<open>Lines 203--234: run flag, translation along the facing direction, turning.
  \<^verbatim>\<open>part_000\<close> has the same statements at lines 183--198.\<close>

definition handle_input :: "keys \<Rightarrow> part_state \<Rightarrow> part_state" where
  "handle_input ks s0 =
     (let s1 = s0\<lparr>isWalking := False,
                  isRunning := (ks ''ShiftLeft'' \<or> ks ''ShiftRight'')\<rparr>;
          moveSpeed = (if isRunning s1 then runSpeed s1 else walkSpeed s1);
          s2 = (if ks ''ArrowUp'' \<or> ks ''KeyW'' then
                  let forward = \<lparr>vx = sin (rotation_y s1), vy = 0, vz = cos (rotation_y s1)\<rparr>
                  in s1\<lparr>position := vec_add (position s1) (multiplyScalar forward moveSpeed),
                        isWalking := True\<rparr>
                else s1);
          s3 = (if ks ''ArrowDown'' \<or> ks ''KeyS'' then
                  let backward =
                        \<lparr>vx = - sin (rotation_y s2), vy = 0, vz = - cos (rotation_y s2)\<rparr>
                  in s2\<lparr>position :=
                          vec_add (position s2) (multiplyScalar backward (moveSpeed * 0.6)),
                        isWalking := True\<rparr>
                else s2);
          s4 = (if ks ''ArrowLeft'' \<or> ks ''KeyA''
                then s3\<lparr>rotation_y := rotation_y s3 + turnSpeed s3\<rparr> else s3);
          s5 = (if ks ''ArrowRight'' \<or> ks ''KeyD''
                then s4\<lparr>rotation_y := rotation_y s4 - turnSpeed s4\<rparr> else s4)
      in s5)"

text \<open>Lines 237--240: the jump is armed when Space is held and the flag is clear.\<close>

definition jumping :: "keys \<Rightarrow> part_state \<Rightarrow> part_state" where
  "jumping ks s =
     (if ks ''Space'' \<and> \<not> isJumping s
      then s\<lparr>jumpForce := 0.3, isJumping := True\<rparr> else s)"

text \<open>Lines 243--247: one fixed Euler step per frame.\<close>

definition physics :: "part_state \<Rightarrow> part_state" where
  "physics s0 =
     (let s1 = s0\<lparr>velocity := (velocity s0)\<lparr>vy := vy (velocity s0) + gravity s0\<rparr>\<rparr>;
          s2 = s1\<lparr>velocity := (velocity s1)\<lparr>vy := vy (velocity s1) + jumpForce s1\<rparr>\<rparr>;
          s3 = s2\<lparr>jumpForce := 0\<rparr>;
          s4 = s3\<lparr>position := (position s3)\<lparr>vy := vy (position s3) + vy (velocity s3)\<rparr>\<rparr>
      in s4)"

text \<open>Lines 250--254: clamp to the constant ground level.\<close>

definition ground_collision :: "part_state \<Rightarrow> part_state" where
  "ground_collision s =
     (if vy (position s) \<le> groundLevel s
      then s\<lparr>position := (position s)\<lparr>vy := groundLevel s\<rparr>,
             velocity := (velocity s)\<lparr>vy := 0\<rparr>,
             isJumping := False\<rparr>
      else s)"

text \<open>\<^verbatim>\<open>animateWalking(time)\<close>, lines 166--194 (\<^verbatim>\<open>part_000\<close>: lines 154--176, the same
  statements).\<close>

definition animateWalking :: "real \<Rightarrow> part_state \<Rightarrow> part_state" where
  "animateWalking time s =
     (if \<not> isWalking s then
        s\<lparr>leftArm := lerp (leftArm s) 0 0.1,
          rightArm := lerp (rightArm s) 0 0.1,
          leftLeg := lerp (leftLeg s) 0 0.1,
          rightLeg := lerp (rightLeg s) 0 0.1\<rparr>
      else
        let frequency = (if isRunning s then 5 else 3);
            armAmplitude = (if isRunning s then 0.8 else 0.5);
            legAmplitude = (if isRunning s then 1.0 else 0.6);
            cycle = sin (time * frequency);
            oppositeCycle = sin (time * frequency + pi);
            bodyBob = \<bar>sin (time * frequency * 2)\<bar> * 0.05
        in s\<lparr>leftArm := cycle * armAmplitude,
              rightArm := oppositeCycle * armAmplitude,
              leftLeg := oppositeCycle * legAmplitude,
              rightLeg := cycle * legAmplitude,
              position := (position s)\<lparr>vy := groundLevel s + bodyBob\<rparr>\<rparr>)"

text \<open>\<^verbatim>\<open>animate()\<close> of \<^verbatim>\<open>part_001\<close>; \<open>time\<close> is \<^verbatim>\<open>Date.now() * 0.001\<close>.\<close>

definition animate_plane :: "keys \<Rightarrow> real \<Rightarrow> part_state \<Rightarrow> part_state" where
  "animate_plane ks time s =
     animateWalking time (ground_collision (physics (jumping ks (handle_input ks s))))"

text \<open>A run of frames: each frame has its own key snapshot and clock reading.\<close>

fun run_plane :: "(keys \<times> real) list \<Rightarrow> part_state \<Rightarrow> part_state" where
  "run_plane [] s = s"
| "run_plane ((ks, time) # fs) s = run_plane fs (animate_plane ks time s)"

section \<open>The frame of \<^verbatim>\<open>part_000\<close> (mesh ground)\<close>

text \<open>
  \<^verbatim>\<open>platformMesh\<close> is \<^verbatim>\<open>null\<close> until the loader's callback has run. The frame sees the
  mesh only through \<^verbatim>\<open>raycaster.intersectObject\<close> with a ray pointing straight down, so
  a mesh is modelled by the heights at which the vertical line through \<open>(x, z)\<close> meets it.
  The ray test of the rendering library returns the points of the mesh on the ray, that
  is at or below the origin, nearest first; \<open>intersectObject\<close> gives their heights.
\<close>

type_synonym mesh = "real \<Rightarrow> real \<Rightarrow> real list"

definition intersectObject :: "vec3 \<Rightarrow> mesh \<Rightarrow> real list" where
  "intersectObject origin m =
     rev (sort (filter (\<lambda>h. h \<le> vy origin) (m (vx origin) (vz origin))))"

text \<open>Lines 210--222: the ray starts one unit above the figure.\<close>

definition platform_collision :: "mesh option \<Rightarrow> part_state \<Rightarrow> part_state" where
  "platform_collision platformMesh s =
     (case platformMesh of
        None \<Rightarrow> s
      | Some m \<Rightarrow>
          let origin = vec_add (position s) \<lparr>vx = 0, vy = 1, vz = 0\<rparr>;
              intersects = intersectObject origin m
          in (case intersects of
                [] \<Rightarrow> s
              | contactY # rest \<Rightarrow>
                  let s1 = (if vy (position s) \<le> contactY + 0.01
                            then s\<lparr>position := (position s)\<lparr>vy := contactY\<rparr>,
                                   velocity := (velocity s)\<lparr>vy := 0\<rparr>,
                                   isJumping := False\<rparr>
                            else s)
                  in s1\<lparr>groundLevel := contactY\<rparr>))"

definition animate_mesh :: "mesh option \<Rightarrow> keys \<Rightarrow> real \<Rightarrow> part_state \<Rightarrow> part_state" where
  "animate_mesh platformMesh ks time s =
     animateWalking time
       (platform_collision platformMesh (physics (jumping ks (handle_input ks s))))"

fun run_mesh :: "(mesh option \<times> keys \<times> real) list \<Rightarrow> part_state \<Rightarrow> part_state" where
  "run_mesh [] s = s"
| "run_mesh ((pm, ks, time) # fs) s = run_mesh fs (animate_mesh pm ks time s)"

section \<open>The frame of \<^verbatim>\<open>main.js\<close>\<close>

text \<open>Lines 170--187: the direction is a sign on the z axis, written by ArrowUp and then
  by ArrowDown; turning comes before the translation.\<close>

definition main_input :: "keys \<Rightarrow> main_state \<Rightarrow> main_state" where
  "main_input ks s0 =
     (let s1 = s0\<lparr>direction := \<lparr>vx = 0, vy = 0, vz = 0\<rparr>,
                  isWalking := False,
                  isRunning := ks ''Shift''\<rparr>;
          s2 = (if ks ''ArrowUp''
                then s1\<lparr>direction := (direction s1)\<lparr>vz := - 1\<rparr>, isWalking := True\<rparr>
                else s1);
          s3 = (if ks ''ArrowDown''
                then s2\<lparr>direction := (direction s2)\<lparr>vz := 1\<rparr>, isWalking := True\<rparr>
                else s2);
          s4 = (if ks ''ArrowLeft''
                then s3\<lparr>rotation_y := rotation_y s3 + turnSpeed s3\<rparr> else s3);
          s5 = (if ks ''ArrowRight''
                then s4\<lparr>rotation_y := rotation_y s4 - turnSpeed s4\<rparr> else s4)
      in s5)"

text \<open>Lines 190--193.\<close>

definition main_jumping :: "keys \<Rightarrow> main_state \<Rightarrow> main_state" where
  "main_jumping ks s =
     (if ks ''Space'' \<and> \<not> isJumping s
      then s\<lparr>jumpForce := 0.2, isJumping := True\<rparr> else s)"

text \<open>Lines 196--198.\<close>

definition main_gravity :: "main_state \<Rightarrow> main_state" where
  "main_gravity s0 =
     (let s1 = s0\<lparr>velocity := (velocity s0)\<lparr>vy := vy (velocity s0) + gravity s0\<rparr>\<rparr>;
          s2 = s1\<lparr>velocity := (velocity s1)\<lparr>vy := vy (velocity s1) + jumpForce s1\<rparr>\<rparr>
      in s2\<lparr>jumpForce := 0\<rparr>)"

text \<open>Lines 201--209.\<close>

definition main_move :: "main_state \<Rightarrow> main_state" where
  "main_move s0 =
     (let moveSpeed = (if isRunning s0 then runSpeed s0 else speed s0);
          s1 = (if isWalking s0 then
                  let forward =
                        applyAxisAngle_Y \<lparr>vx = 0, vy = 0, vz = vz (direction s0)\<rparr> (rotation_y s0)
                  in s0\<lparr>position := vec_add (position s0) (multiplyScalar forward moveSpeed)\<rparr>
                else s0)
      in s1\<lparr>position := (position s1)\<lparr>vy := vy (position s1) + vy (velocity s1)\<rparr>\<rparr>)"

text \<open>Lines 212--216: the ground is at height 0.\<close>

definition main_ground :: "main_state \<Rightarrow> main_state" where
  "main_ground s =
     (if vy (position s) \<le> 0
      then s\<lparr>position := (position s)\<lparr>vy := 0\<rparr>,
             velocity := (velocity s)\<lparr>vy := 0\<rparr>,
             isJumping := False\<rparr>
      else s)"

text \<open>\<^verbatim>\<open>animateStickmanLimbs(time, isWalking, isRunning)\<close>, lines 114--123; the two flags
  are read from the state, as the one call site passes them.\<close>

definition animateStickmanLimbs :: "real \<Rightarrow> main_state \<Rightarrow> main_state" where
  "animateStickmanLimbs time s =
     (let speed' = (if isRunning s then 2.5 else 1.5);
          swing = (if isWalking s then sin (time * speed') * 0.7 else 0);
          swingOpp = (if isWalking s then sin (time * speed' + pi) * 0.7 else 0)
      in s\<lparr>leftArm := swing, rightArm := swingOpp, leftLeg := swingOpp, rightLeg := swing\<rparr>)"

definition animate_main :: "keys \<Rightarrow> real \<Rightarrow> main_state \<Rightarrow> main_state" where
  "animate_main ks time s =
     animateStickmanLimbs time
       (main_ground (main_move (main_gravity (main_jumping ks (main_input ks s)))))"

fun run_main :: "(keys \<times> real) list \<Rightarrow> main_state \<Rightarrow> main_state" where
  "run_main [] s = s"
| "run_main ((ks, time) # fs) s = run_main fs (animate_main ks time s)"

section \<open>Predicates used in the statements\<close>

text \<open>The tests the \<^verbatim>\<open>part_000\<close>/\<^verbatim>\<open>part_001\<close> frames make on the key snapshot.\<close>

definition forward_key :: "keys \<Rightarrow> bool" where
  "forward_key ks \<longleftrightarrow> ks ''ArrowUp'' \<or> ks ''KeyW''"

definition backward_key :: "keys \<Rightarrow> bool" where
  "backward_key ks \<longleftrightarrow> ks ''ArrowDown'' \<or> ks ''KeyS''"

definition left_key :: "keys \<Rightarrow> bool" where
  "left_key ks \<longleftrightarrow> ks ''ArrowLeft'' \<or> ks ''KeyA''"

definition right_key :: "keys \<Rightarrow> bool" where
  "right_key ks \<longleftrightarrow> ks ''ArrowRight'' \<or> ks ''KeyD''"

definition walk_key :: "keys \<Rightarrow> bool" where
  "walk_key ks \<longleftrightarrow> forward_key ks \<or> backward_key ks"

definition run_key :: "keys \<Rightarrow> bool" where
  "run_key ks \<longleftrightarrow> ks ''ShiftLeft'' \<or> ks ''ShiftRight''"

text \<open>The \<^verbatim>\<open>moveSpeed\<close> of a frame.\<close>

definition move_speed :: "keys \<Rightarrow> part_state \<Rightarrow> real" where
  "move_speed ks s = (if run_key ks then runSpeed s else walkSpeed s)"

definition main_move_speed :: "keys \<Rightarrow> main_state \<Rightarrow> real" where
  "main_move_speed ks s = (if ks ''Shift'' then runSpeed s else speed s)"

text \<open>The sign \<^verbatim>\<open>main.js\<close> leaves in \<^verbatim>\<open>state.direction.z\<close>: ArrowDown is tested
  last, so it wins over ArrowUp.\<close>

definition main_sign :: "keys \<Rightarrow> real" where
  "main_sign ks = (if ks ''ArrowDown'' then 1 else if ks ''ArrowUp'' then - 1 else 0)"

text \<open>The unit vector \<^verbatim>\<open>(sin(yaw), 0, cos(yaw))\<close> that \<^verbatim>\<open>part_000\<close> and
  \<^verbatim>\<open>part_001\<close> call \<^verbatim>\<open>forward\<close>.\<close>

definition facing :: "real \<Rightarrow> vec3" where
  "facing yaw = \<lparr>vx = sin yaw, vy = 0, vz = cos yaw\<rparr>"

text \<open>Turn-left held and turn-right not held.\<close>

definition turn_left_only :: "keys \<Rightarrow> bool" where
  "turn_left_only ks \<longleftrightarrow>
     (ks ''ArrowLeft'' \<or> ks ''KeyA'') \<and> \<not> (ks ''ArrowRight'' \<or> ks ''KeyD'')"

definition main_turn_left_only :: "keys \<Rightarrow> bool" where
  "main_turn_left_only ks \<longleftrightarrow> ks ''ArrowLeft'' \<and> \<not> ks ''ArrowRight''"

text \<open>The same run of frames with the Space key forced down, or up, in every frame.\<close>

definition with_space :: "bool \<Rightarrow> (keys \<times> real) list \<Rightarrow> (keys \<times> real) list" where
  "with_space b fs = map (\<lambda>(ks, time). (ks(''Space'' := b), time)) fs"

text \<open>The jump flag is set at the start of every frame of the run.\<close>

fun airborne_plane :: "(keys \<times> real) list \<Rightarrow> part_state \<Rightarrow> bool" where
  "airborne_plane [] s = True"
| "airborne_plane ((ks, time) # fs) s =
     (isJumping s \<and> airborne_plane fs (animate_plane ks time s))"

fun airborne_main :: "(keys \<times> real) list \<Rightarrow> main_state \<Rightarrow> bool" where
  "airborne_main [] s = True"
| "airborne_main ((ks, time) # fs) s =
     (isJumping s \<and> airborne_main fs (animate_main ks time s))"

text \<open>The states one frame after a jump press on the first frame.\<close>

definition part_air :: part_state where
  "part_air = animate_plane (no_keys(''Space'' := True)) 0 part_init"

definition main_air :: main_state where
  "main_air = animate_main (no_keys(''Space'' := True)) 0 main_init"

text \<open>The body bob that \<open>animateWalking\<close> computes in a frame with these keys.\<close>

definition body_bob :: "keys \<Rightarrow> real \<Rightarrow> real" where
  "body_bob ks time = \<bar>sin (time * (if run_key ks then 5 else 3) * 2)\<bar> * 0.05"


text \<open>The constants \<open>animateWalking\<close> picks by the run flag (lines 176--178).\<close>

definition frequency :: "bool \<Rightarrow> real" where
  "frequency running = (if running then 5 else 3)"

definition armAmplitude :: "bool \<Rightarrow> real" where
  "armAmplitude running = (if running then 0.8 else 0.5)"

definition legAmplitude :: "bool \<Rightarrow> real" where
  "legAmplitude running = (if running then 1.0 else 0.6)"

text \<open>The four joint angles, in the order left arm, right arm, left leg, right leg.\<close>

definition limbs :: "'a figure_scheme \<Rightarrow> real list" where
  "limbs s = [leftArm s, rightArm s, leftLeg s, rightLeg s]"

text \<open>A frame of \<^verbatim>\<open>part_000\<close> before the mesh has loaded, with no walk key and no jump
  key held.\<close>

definition free_fall_frame :: "mesh option \<times> keys \<times> real \<Rightarrow> bool" where
  "free_fall_frame f \<longleftrightarrow>
     fst f = None \<and> \<not> walk_key (fst (snd f)) \<and> \<not> fst (snd f) ''Space''"







section \<open>What each stage leaves alone\<close>

lemma vec3_eqI: "vx a = vx b \<Longrightarrow> vy a = vy b \<Longrightarrow> vz a = vz b \<Longrightarrow> a = (b::vec3)"
  by (cases a, cases b) simp

lemma vec_add_proj [simp]:
  "vx (vec_add a b) = vx a + vx b" "vy (vec_add a b) = vy a + vy b"
  "vz (vec_add a b) = vz a + vz b"
  by (simp_all add: vec_add_def)

lemma multiplyScalar_proj [simp]:
  "vx (multiplyScalar a k) = vx a * k" "vy (multiplyScalar a k) = vy a * k"
  "vz (multiplyScalar a k) = vz a * k"
  by (simp_all add: multiplyScalar_def)

lemma facing_proj [simp]:
  "vx (facing yaw) = sin yaw" "vy (facing yaw) = 0" "vz (facing yaw) = cos yaw"
  by (simp_all add: facing_def)

text \<open>The input block with its five key tests named.\<close>

lemma handle_input_alt:
  "handle_input ks s0 =
     (let s1 = s0\<lparr>isWalking := False, isRunning := run_key ks\<rparr>;
          moveSpeed = (if isRunning s1 then runSpeed s1 else walkSpeed s1);
          s2 = (if forward_key ks then
                  let forward = \<lparr>vx = sin (rotation_y s1), vy = 0, vz = cos (rotation_y s1)\<rparr>
                  in s1\<lparr>position := vec_add (position s1) (multiplyScalar forward moveSpeed),
                        isWalking := True\<rparr>
                else s1);
          s3 = (if backward_key ks then
                  let backward =
                        \<lparr>vx = - sin (rotation_y s2), vy = 0, vz = - cos (rotation_y s2)\<rparr>
                  in s2\<lparr>position :=
                          vec_add (position s2) (multiplyScalar backward (moveSpeed * 0.6)),
                        isWalking := True\<rparr>
                else s2);
          s4 = (if left_key ks
                then s3\<lparr>rotation_y := rotation_y s3 + turnSpeed s3\<rparr> else s3);
          s5 = (if right_key ks
                then s4\<lparr>rotation_y := rotation_y s4 - turnSpeed s4\<rparr> else s4)
      in s5)"
  by (simp only: handle_input_def forward_key_def backward_key_def run_key_def left_key_def
      right_key_def)

lemma handle_input_fields [simp]:
  "vy (position (handle_input ks s)) = vy (position s)"
  "velocity (handle_input ks s) = velocity s"
  "jumpForce (handle_input ks s) = jumpForce s"
  "isJumping (handle_input ks s) = isJumping s"
  "gravity (handle_input ks s) = gravity s"
  "groundLevel (handle_input ks s) = groundLevel s"
  "turnSpeed (handle_input ks s) = turnSpeed s"
  "walkSpeed (handle_input ks s) = walkSpeed s"
  "runSpeed (handle_input ks s) = runSpeed s"
  "leftArm (handle_input ks s) = leftArm s"
  "rightArm (handle_input ks s) = rightArm s"
  "leftLeg (handle_input ks s) = leftLeg s"
  "rightLeg (handle_input ks s) = rightLeg s"
  "isWalking (handle_input ks s) = walk_key ks"
  "isRunning (handle_input ks s) = run_key ks"
  by (simp_all add: handle_input_alt Let_def walk_key_def)

lemma handle_input_space [simp]: "handle_input (ks(''Space'' := b)) s = handle_input ks s"
  by (simp add: handle_input_def)

lemma main_input_space [simp]: "main_input (ks(''Space'' := b)) s = main_input ks s"
  by (simp add: main_input_def)

lemma main_input_fields [simp]:
  "position (main_input ks s) = position s"
  "velocity (main_input ks s) = velocity s"
  "jumpForce (main_input ks s) = jumpForce s"
  "isJumping (main_input ks s) = isJumping s"
  "gravity (main_input ks s) = gravity s"
  "turnSpeed (main_input ks s) = turnSpeed s"
  "speed (main_input ks s) = speed s"
  "runSpeed (main_input ks s) = runSpeed s"
  "isWalking (main_input ks s) = (ks ''ArrowUp'' \<or> ks ''ArrowDown'')"
  "isRunning (main_input ks s) = ks ''Shift''"
  by (auto simp: main_input_def Let_def)

lemma rotation_handle_input:
  "rotation_y (handle_input ks s) =
     rotation_y s + (if left_key ks then turnSpeed s else 0)
                  - (if right_key ks then turnSpeed s else 0)"
  by (simp add: handle_input_alt Let_def)

lemma jumping_fields [simp]:
  "position (jumping ks s) = position s"
  "rotation_y (jumping ks s) = rotation_y s"
  "turnSpeed (jumping ks s) = turnSpeed s"
  "gravity (jumping ks s) = gravity s"
  "groundLevel (jumping ks s) = groundLevel s"
  "velocity (jumping ks s) = velocity s"
  "isWalking (jumping ks s) = isWalking s"
  "isRunning (jumping ks s) = isRunning s"
  "leftArm (jumping ks s) = leftArm s"
  "rightArm (jumping ks s) = rightArm s"
  "leftLeg (jumping ks s) = leftLeg s"
  "rightLeg (jumping ks s) = rightLeg s"
  by (simp_all add: jumping_def)

lemma physics_fields [simp]:
  "vx (position (physics s)) = vx (position s)"
  "vz (position (physics s)) = vz (position s)"
  "rotation_y (physics s) = rotation_y s"
  "turnSpeed (physics s) = turnSpeed s"
  "gravity (physics s) = gravity s"
  "groundLevel (physics s) = groundLevel s"
  "isJumping (physics s) = isJumping s"
  "isWalking (physics s) = isWalking s"
  "isRunning (physics s) = isRunning s"
  "jumpForce (physics s) = 0"
  "leftArm (physics s) = leftArm s"
  "rightArm (physics s) = rightArm s"
  "leftLeg (physics s) = leftLeg s"
  "rightLeg (physics s) = rightLeg s"
  by (simp_all add: physics_def Let_def)

lemma ground_collision_fields [simp]:
  "vx (position (ground_collision s)) = vx (position s)"
  "vz (position (ground_collision s)) = vz (position s)"
  "rotation_y (ground_collision s) = rotation_y s"
  "turnSpeed (ground_collision s) = turnSpeed s"
  "gravity (ground_collision s) = gravity s"
  "groundLevel (ground_collision s) = groundLevel s"
  "jumpForce (ground_collision s) = jumpForce s"
  "isWalking (ground_collision s) = isWalking s"
  "isRunning (ground_collision s) = isRunning s"
  "leftArm (ground_collision s) = leftArm s"
  "rightArm (ground_collision s) = rightArm s"
  "leftLeg (ground_collision s) = leftLeg s"
  "rightLeg (ground_collision s) = rightLeg s"
  by (simp_all add: ground_collision_def)

lemma platform_collision_fields [simp]:
  "vx (position (platform_collision pm s)) = vx (position s)"
  "vz (position (platform_collision pm s)) = vz (position s)"
  "rotation_y (platform_collision pm s) = rotation_y s"
  "turnSpeed (platform_collision pm s) = turnSpeed s"
  "gravity (platform_collision pm s) = gravity s"
  "jumpForce (platform_collision pm s) = jumpForce s"
  "isWalking (platform_collision pm s) = isWalking s"
  "isRunning (platform_collision pm s) = isRunning s"
  "leftArm (platform_collision pm s) = leftArm s"
  "rightArm (platform_collision pm s) = rightArm s"
  "leftLeg (platform_collision pm s) = leftLeg s"
  "rightLeg (platform_collision pm s) = rightLeg s"
  by (simp_all add: platform_collision_def Let_def split: option.split list.split)

lemma animateWalking_fields [simp]:
  "vx (position (animateWalking time s)) = vx (position s)"
  "vz (position (animateWalking time s)) = vz (position s)"
  "rotation_y (animateWalking time s) = rotation_y s"
  "turnSpeed (animateWalking time s) = turnSpeed s"
  "gravity (animateWalking time s) = gravity s"
  "groundLevel (animateWalking time s) = groundLevel s"
  "jumpForce (animateWalking time s) = jumpForce s"
  "velocity (animateWalking time s) = velocity s"
  "isJumping (animateWalking time s) = isJumping s"
  by (simp_all add: animateWalking_def Let_def)

lemma main_stage_fields [simp]:
  "rotation_y (main_jumping ks s) = rotation_y s"
  "turnSpeed (main_jumping ks s) = turnSpeed s"
  "rotation_y (main_gravity s) = rotation_y s"
  "turnSpeed (main_gravity s) = turnSpeed s"
  "rotation_y (main_move s) = rotation_y s"
  "turnSpeed (main_move s) = turnSpeed s"
  "rotation_y (main_ground s) = rotation_y s"
  "turnSpeed (main_ground s) = turnSpeed s"
  "rotation_y (animateStickmanLimbs time s) = rotation_y s"
  "turnSpeed (animateStickmanLimbs time s) = turnSpeed s"
  by (simp_all add: main_jumping_def main_gravity_def main_move_def main_ground_def
      animateStickmanLimbs_def Let_def)

lemma rotation_main_input:
  "rotation_y (main_input ks s) =
     rotation_y s + (if ks ''ArrowLeft'' then turnSpeed s else 0)
                  - (if ks ''ArrowRight'' then turnSpeed s else 0)"
  "turnSpeed (main_input ks s) = turnSpeed s"
  by (simp_all add: main_input_def Let_def)


lemma groundLevel_animate_plane [simp]:
  "groundLevel (animate_plane ks time s) = groundLevel s"
  by (simp add: animate_plane_def animateWalking_def ground_collision_def physics_def
      jumping_def Let_def)

lemma groundLevel_run_plane [simp]: "groundLevel (run_plane fs s) = groundLevel s"
  by (induction fs s rule: run_plane.induct) simp_all

section \<open>Jump trigger\<close>

lemma jump_press_plane:
  "ks ''Space'' \<Longrightarrow> \<not> isJumping s \<Longrightarrow> jumpForce s = 0 \<Longrightarrow>
     vy (velocity (physics (jumping ks (handle_input ks s)))) = vy (velocity s) + gravity s + 0.3 \<and>
     isJumping (physics (jumping ks (handle_input ks s)))"
  by (simp add: physics_def jumping_def Let_def)

lemma jump_held_plane:
  "isJumping s \<Longrightarrow> jumpForce s = 0 \<Longrightarrow>
     vy (velocity (physics (jumping ks (handle_input ks s)))) = vy (velocity s) + gravity s \<and>
     isJumping (physics (jumping ks (handle_input ks s)))"
  by (simp add: physics_def jumping_def Let_def)

lemma jumpForce_animate_plane [simp]: "jumpForce (animate_plane ks time s) = 0"
  by (simp add: animate_plane_def animateWalking_def ground_collision_def physics_def Let_def)

lemma animate_plane_space:
  "isJumping s \<Longrightarrow> animate_plane (ks(''Space'' := b)) time s = animate_plane ks time s"
  by (simp add: animate_plane_def jumping_def)

lemma run_plane_space:
  "airborne_plane (with_space False fs) s \<Longrightarrow>
   run_plane (with_space True fs) s = run_plane (with_space False fs) s"
proof (induction fs arbitrary: s)
  case Nil
  then show ?case by (simp add: with_space_def)
next
  case (Cons f fs)
  obtain ks t where f: "f = (ks, t)" by (cases f)
  from Cons.prems have j: "isJumping s"
    and a: "airborne_plane (with_space False fs) (animate_plane (ks(''Space'' := False)) t s)"
    by (simp_all add: f with_space_def)
  have e: "animate_plane (ks(''Space'' := True)) t s = animate_plane (ks(''Space'' := False)) t s"
    using j by (simp add: animate_plane_space)
  have "run_plane (with_space True (f # fs)) s =
        run_plane (with_space True fs) (animate_plane (ks(''Space'' := True)) t s)"
    by (simp add: f with_space_def)
  also have "\<dots> = run_plane (with_space False fs) (animate_plane (ks(''Space'' := False)) t s)"
    using Cons.IH [OF a] by (simp add: e)
  also have "\<dots> = run_plane (with_space False (f # fs)) s"
    by (simp add: f with_space_def)
  finally show ?case .
qed

lemma jump_press_main:
  "ks ''Space'' \<Longrightarrow> \<not> isJumping s \<Longrightarrow> jumpForce s = 0 \<Longrightarrow>
     vy (velocity (main_gravity (main_jumping ks (main_input ks s)))) =
       vy (velocity s) + gravity s + 0.2 \<and>
     isJumping (main_gravity (main_jumping ks (main_input ks s)))"
  by (simp add: main_gravity_def main_jumping_def Let_def)

lemma jump_held_main:
  "isJumping s \<Longrightarrow> jumpForce s = 0 \<Longrightarrow>
     vy (velocity (main_gravity (main_jumping ks (main_input ks s)))) = vy (velocity s) + gravity s \<and>
     isJumping (main_gravity (main_jumping ks (main_input ks s)))"
  by (simp add: main_gravity_def main_jumping_def Let_def)

lemma jumpForce_animate_main [simp]: "jumpForce (animate_main ks time s) = 0"
  by (simp add: animate_main_def animateStickmanLimbs_def main_ground_def main_move_def
      main_gravity_def Let_def)

lemma animate_main_space:
  "isJumping s \<Longrightarrow> animate_main (ks(''Space'' := b)) time s = animate_main ks time s"
  by (simp add: animate_main_def main_jumping_def)

lemma run_main_space:
  "airborne_main (with_space False fs) s \<Longrightarrow>
   run_main (with_space True fs) s = run_main (with_space False fs) s"
proof (induction fs arbitrary: s)
  case Nil
  then show ?case by (simp add: with_space_def)
next
  case (Cons f fs)
  obtain ks t where f: "f = (ks, t)" by (cases f)
  from Cons.prems have j: "isJumping s"
    and a: "airborne_main (with_space False fs) (animate_main (ks(''Space'' := False)) t s)"
    by (simp_all add: f with_space_def)
  have e: "animate_main (ks(''Space'' := True)) t s = animate_main (ks(''Space'' := False)) t s"
    using j by (simp add: animate_main_space)
  have "run_main (with_space True (f # fs)) s =
        run_main (with_space True fs) (animate_main (ks(''Space'' := True)) t s)"
    by (simp add: f with_space_def)
  also have "\<dots> = run_main (with_space False fs) (animate_main (ks(''Space'' := False)) t s)"
    using Cons.IH [OF a] by (simp add: e)
  also have "\<dots> = run_main (with_space False (f # fs)) s"
    by (simp add: f with_space_def)
  finally show ?case .
qed

text \<open>
  Claim C2. In \<^verbatim>\<open>part_001\<close> and in \<^verbatim>\<open>main.js\<close>: a frame that starts with the jump flag
  clear, no impulse pending and Space held adds gravity and the jump impulse (0.3, in
  \<^verbatim>\<open>main.js\<close> 0.2) to the vertical velocity once, and sets the flag. When the flag is set
  the jump step changes nothing, whatever the Space key, and the frame's integration adds
  gravity alone. The impulse never survives its frame (\<open>jumpForce\<close> is 0 after every
  frame), and over any run of frames that all start with the flag set, holding Space in
  every frame gives the same states as never holding it.
\<close>

theorem jump_edge_trigger:
  "(ks ''Space'' \<and> \<not> isJumping s \<and> jumpForce s = 0 \<longrightarrow>
      vy (velocity (physics (jumping ks (handle_input ks s)))) =
        vy (velocity s) + gravity s + 0.3 \<and>
      isJumping (physics (jumping ks (handle_input ks s)))) \<and>
   (isJumping sa \<longrightarrow> jumping ks sa = sa) \<and>
   (isJumping sa \<and> jumpForce sa = 0 \<longrightarrow>
      vy (velocity (physics (jumping ks (handle_input ks sa)))) =
        vy (velocity sa) + gravity sa \<and>
      isJumping (physics (jumping ks (handle_input ks sa)))) \<and>
   jumpForce (animate_plane ks time s) = 0 \<and>
   (airborne_plane (with_space False fs) sa \<longrightarrow>
      run_plane (with_space True fs) sa = run_plane (with_space False fs) sa) \<and>
   (ks ''Space'' \<and> \<not> isJumping ms \<and> jumpForce ms = 0 \<longrightarrow>
      vy (velocity (main_gravity (main_jumping ks (main_input ks ms)))) =
        vy (velocity ms) + gravity ms + 0.2 \<and>
      isJumping (main_gravity (main_jumping ks (main_input ks ms)))) \<and>
   (isJumping ma \<longrightarrow> main_jumping ks ma = ma) \<and>
   (isJumping ma \<and> jumpForce ma = 0 \<longrightarrow>
      vy (velocity (main_gravity (main_jumping ks (main_input ks ma)))) =
        vy (velocity ma) + gravity ma \<and>
      isJumping (main_gravity (main_jumping ks (main_input ks ma)))) \<and>
   jumpForce (animate_main ks time ms) = 0 \<and>
   (airborne_main (with_space False fs) ma \<longrightarrow>
      run_main (with_space True fs) ma = run_main (with_space False fs) ma)"
proof -
  have a: "isJumping sa \<longrightarrow> jumping ks sa = sa" by (simp add: jumping_def)
  have b: "isJumping ma \<longrightarrow> main_jumping ks ma = ma" by (simp add: main_jumping_def)
  show ?thesis
    using a b jump_press_plane [of ks s] jump_held_plane [of sa ks] run_plane_space [of fs sa]
      jump_press_main [of ks ms] jump_held_main [of ma ks] run_main_space [of fs ma]
      jumpForce_animate_plane [of ks time s] jumpForce_animate_main [of ks time ms]
    by blast
qed

lemma part_air_eq:
  "part_air = part_init\<lparr>position := \<lparr>vx = 0, vy = legLength + 0.28, vz = 0\<rparr>,
      isJumping := True, velocity := \<lparr>vx = 0, vy = 0.28, vz = 0\<rparr>\<rparr>"
  by (simp add: part_air_def animate_plane_def animateWalking_def ground_collision_def
      physics_def jumping_def handle_input_def Let_def no_keys_def lerp_def part_init_def zero3_def)

lemma main_air_eq:
  "main_air = main_init\<lparr>position := \<lparr>vx = 0, vy = 0.19, vz = 0\<rparr>,
      isJumping := True, velocity := \<lparr>vx = 0, vy = 0.19, vz = 0\<rparr>\<rparr>"
  by (simp add: main_air_def animate_main_def animateStickmanLimbs_def main_ground_def
      main_move_def main_gravity_def main_jumping_def main_input_def Let_def no_keys_def
      main_init_def zero3_def)

theorem jump_edge_trigger_witness:
  "vy (velocity (physics (jumping (no_keys(''Space'' := True))
      (handle_input (no_keys(''Space'' := True)) part_init)))) = 0.28 \<and>
   jumping (no_keys(''Space'' := True)) part_air = part_air \<and>
   vy (velocity (physics (jumping (no_keys(''Space'' := True))
      (handle_input (no_keys(''Space'' := True)) part_air)))) = 0.26 \<and>
   run_plane (with_space True [(no_keys, 0)]) part_air =
     run_plane (with_space False [(no_keys, 0)]) part_air \<and>
   vy (velocity (main_gravity (main_jumping (no_keys(''Space'' := True))
      (main_input (no_keys(''Space'' := True)) main_init)))) = 0.19 \<and>
   main_jumping (no_keys(''Space'' := True)) main_air = main_air \<and>
   vy (velocity (main_gravity (main_jumping (no_keys(''Space'' := True))
      (main_input (no_keys(''Space'' := True)) main_air)))) = 0.18 \<and>
   run_main (with_space True [(no_keys, 0)]) main_air =
     run_main (with_space False [(no_keys, 0)]) main_air"
proof -
  have h1: "(no_keys(''Space'' := True)) ''Space'' \<and> \<not> isJumping part_init \<and>
      jumpForce part_init = 0 \<and> vy (velocity part_init) + gravity part_init + 0.3 = 0.28"
    by (simp add: part_init_def zero3_def)
  have h2: "isJumping part_air \<and> jumpForce part_air = 0 \<and>
      vy (velocity part_air) + gravity part_air = 0.26"
    by (simp add: part_air_eq part_init_def)
  have h3: "airborne_plane (with_space False [(no_keys, 0)]) part_air"
    by (simp add: with_space_def part_air_eq part_init_def)
  have h4: "\<not> isJumping main_init \<and> jumpForce main_init = 0 \<and>
      vy (velocity main_init) + gravity main_init + 0.2 = 0.19"
    by (simp add: main_init_def zero3_def)
  have h5: "isJumping main_air \<and> jumpForce main_air = 0 \<and>
      vy (velocity main_air) + gravity main_air = 0.18"
    by (simp add: main_air_eq main_init_def)
  have h6: "airborne_main (with_space False [(no_keys, 0)]) main_air"
    by (simp add: with_space_def main_air_eq main_init_def)
  show ?thesis
    using h1 h2 h3 h4 h5 h6
      jump_edge_trigger [of "no_keys(''Space'' := True)" part_init part_air 0 "[(no_keys, 0)]"
        main_init main_air]
    by simp
qed


section \<open>Turning\<close>

lemma turn_frame_plane:
  "turn_left_only ks \<Longrightarrow>
   rotation_y (animate_plane ks time s) = rotation_y s + turnSpeed s \<and>
   turnSpeed (animate_plane ks time s) = turnSpeed s"
  by (simp add: turn_left_only_def left_key_def right_key_def animate_plane_def
      rotation_handle_input)

lemma turn_frame_mesh:
  "turn_left_only ks \<Longrightarrow>
   rotation_y (animate_mesh pm ks time s) = rotation_y s + turnSpeed s \<and>
   turnSpeed (animate_mesh pm ks time s) = turnSpeed s"
  by (simp add: turn_left_only_def left_key_def right_key_def animate_mesh_def
      rotation_handle_input)

lemma turn_frame_main:
  "main_turn_left_only ks \<Longrightarrow>
   rotation_y (animate_main ks time s) = rotation_y s + turnSpeed s \<and>
   turnSpeed (animate_main ks time s) = turnSpeed s"
  by (simp add: main_turn_left_only_def animate_main_def rotation_main_input)

lemma turn_run_plane:
  "\<forall>f \<in> set fs. turn_left_only (fst f) \<Longrightarrow>
   rotation_y (run_plane fs s) = rotation_y s + real (length fs) * turnSpeed s"
proof (induction fs arbitrary: s)
  case Nil
  then show ?case by simp
next
  case (Cons f fs)
  obtain ks t where f: "f = (ks, t)" by (cases f)
  from Cons.prems have l: "turn_left_only ks" and r: "\<forall>f \<in> set fs. turn_left_only (fst f)"
    by (simp_all add: f)
  show ?case
    using Cons.IH [OF r, of "animate_plane ks t s"] turn_frame_plane [OF l, of t s]
    by (simp add: f algebra_simps)
qed

lemma turn_run_mesh:
  "\<forall>f \<in> set gs. turn_left_only (fst (snd f)) \<Longrightarrow>
   rotation_y (run_mesh gs s) = rotation_y s + real (length gs) * turnSpeed s"
proof (induction gs arbitrary: s)
  case Nil
  then show ?case by simp
next
  case (Cons f gs)
  obtain pm ks t where f: "f = (pm, ks, t)" by (cases f)
  from Cons.prems have l: "turn_left_only ks"
    and r: "\<forall>f \<in> set gs. turn_left_only (fst (snd f))"
    by (simp_all add: f)
  show ?case
    using Cons.IH [OF r, of "animate_mesh pm ks t s"] turn_frame_mesh [OF l, of pm t s]
    by (simp add: f algebra_simps)
qed

lemma turn_run_main:
  "\<forall>f \<in> set fs. main_turn_left_only (fst f) \<Longrightarrow>
   rotation_y (run_main fs s) = rotation_y s + real (length fs) * turnSpeed s"
proof (induction fs arbitrary: s)
  case Nil
  then show ?case by simp
next
  case (Cons f fs)
  obtain ks t where f: "f = (ks, t)" by (cases f)
  from Cons.prems have l: "main_turn_left_only ks"
    and r: "\<forall>f \<in> set fs. main_turn_left_only (fst f)"
    by (simp_all add: f)
  show ?case
    using Cons.IH [OF r, of "animate_main ks t s"] turn_frame_main [OF l, of t s]
    by (simp add: f algebra_simps)
qed

text \<open>
  Claim C6. In all three versions, over any K consecutive frames in which a turn-left key
  is held and no turn-right key, the yaw grows by exactly K times \<open>turnSpeed\<close>, whatever
  the state at the start (airborne or not), whatever other keys are held and whatever the
  clock reads: the step is a constant per frame. The yaw is not reduced modulo a full turn.
\<close>

theorem turn_accumulation:
  "((\<forall>f \<in> set fs. turn_left_only (fst f)) \<longrightarrow>
      rotation_y (run_plane fs s) = rotation_y s + real (length fs) * turnSpeed s) \<and>
   ((\<forall>f \<in> set gs. turn_left_only (fst (snd f))) \<longrightarrow>
      rotation_y (run_mesh gs s) = rotation_y s + real (length gs) * turnSpeed s) \<and>
   ((\<forall>f \<in> set fs'. main_turn_left_only (fst f)) \<longrightarrow>
      rotation_y (run_main fs' ms) = rotation_y ms + real (length fs') * turnSpeed ms)"
  using turn_run_plane [of fs s] turn_run_mesh [of gs s] turn_run_main [of fs' ms]
  by blast

theorem turn_accumulation_witness:
  "rotation_y (run_plane
      [(no_keys(''ArrowLeft'' := True), 0),
       (no_keys(''KeyA'' := True, ''ArrowUp'' := True), 1),
       (no_keys(''ArrowLeft'' := True, ''Space'' := True), 2)] part_init) = 0.18 \<and>
   rotation_y (run_mesh
      [(None, no_keys(''ArrowLeft'' := True), 0),
       (Some (\<lambda>x z. [0]), no_keys(''KeyA'' := True, ''KeyS'' := True), 1)] part_init) = 0.12 \<and>
   rotation_y (run_main
      [(no_keys(''ArrowLeft'' := True), 0),
       (no_keys(''ArrowLeft'' := True, ''ArrowUp'' := True), 1)] main_init) = 0.1"
  (is "rotation_y (run_plane ?fs part_init) = _ \<and> rotation_y (run_mesh ?gs part_init) = _ \<and>
       rotation_y (run_main ?hs main_init) = _")
proof -
  have h1: "\<forall>f \<in> set ?fs. turn_left_only (fst f)"
    by (simp add: turn_left_only_def no_keys_def)
  have h2: "\<forall>f \<in> set ?gs. turn_left_only (fst (snd f))"
    by (simp add: turn_left_only_def no_keys_def)
  have h3: "\<forall>f \<in> set ?hs. main_turn_left_only (fst f)"
    by (simp add: main_turn_left_only_def no_keys_def)
  have t: "rotation_y (run_plane ?fs part_init) =
             rotation_y part_init + real (length ?fs) * turnSpeed part_init \<and>
           rotation_y (run_mesh ?gs part_init) =
             rotation_y part_init + real (length ?gs) * turnSpeed part_init \<and>
           rotation_y (run_main ?hs main_init) =
             rotation_y main_init + real (length ?hs) * turnSpeed main_init"
    using turn_accumulation [of ?fs part_init ?gs ?hs main_init] h1 h2 h3 by blast
  have v: "rotation_y part_init + real (length ?fs) * turnSpeed part_init = 0.18"
    "rotation_y part_init + real (length ?gs) * turnSpeed part_init = 0.12"
    "rotation_y main_init + real (length ?hs) * turnSpeed main_init = 0.1"
    by (simp_all add: part_init_def main_init_def)
  from t show ?thesis unfolding v .
qed

section \<open>Translation\<close>

lemma xz_handle_input:
  "vx (position (handle_input ks s)) =
     vx (position s) + (if forward_key ks then sin (rotation_y s) * move_speed ks s else 0)
                     - (if backward_key ks then sin (rotation_y s) * (move_speed ks s * 0.6) else 0)"
  "vz (position (handle_input ks s)) =
     vz (position s) + (if forward_key ks then cos (rotation_y s) * move_speed ks s else 0)
                     - (if backward_key ks then cos (rotation_y s) * (move_speed ks s * 0.6) else 0)"
  by (simp_all add: handle_input_alt Let_def move_speed_def)

lemma position_handle_input:
  "position (handle_input ks s) =
     (let p1 = (if forward_key ks
                then vec_add (position s) (multiplyScalar (facing (rotation_y s)) (move_speed ks s))
                else position s)
      in if backward_key ks
         then vec_add p1 (multiplyScalar (facing (rotation_y s)) (- (move_speed ks s * 0.6)))
         else p1)"
  by (rule vec3_eqI) (simp_all add: xz_handle_input Let_def)

lemma xz_animate_plane:
  "vx (position (animate_plane ks time s)) = vx (position (handle_input ks s))"
  "vz (position (animate_plane ks time s)) = vz (position (handle_input ks s))"
  by (simp_all add: animate_plane_def)

lemma xz_animate_mesh:
  "vx (position (animate_mesh pm ks time s)) = vx (position (handle_input ks s))"
  "vz (position (animate_mesh pm ks time s)) = vz (position (handle_input ks s))"
  by (simp_all add: animate_mesh_def)

lemma main_input_direction:
  "vz (direction (main_input ks s)) = main_sign ks"
  by (simp add: main_input_def Let_def main_sign_def)

lemma main_stage_position [simp]:
  "position (main_jumping ks s) = position s"
  "isWalking (main_jumping ks s) = isWalking s"
  "isRunning (main_jumping ks s) = isRunning s"
  "direction (main_jumping ks s) = direction s"
  "speed (main_jumping ks s) = speed s"
  "runSpeed (main_jumping ks s) = runSpeed s"
  "position (main_gravity s) = position s"
  "isWalking (main_gravity s) = isWalking s"
  "isRunning (main_gravity s) = isRunning s"
  "direction (main_gravity s) = direction s"
  "speed (main_gravity s) = speed s"
  "runSpeed (main_gravity s) = runSpeed s"
  "vx (position (main_ground s)) = vx (position s)"
  "vz (position (main_ground s)) = vz (position s)"
  "position (animateStickmanLimbs time s) = position s"
  by (simp_all add: main_jumping_def main_gravity_def main_ground_def
      animateStickmanLimbs_def Let_def)

lemma xz_main_move:
  "vx (position (main_move s)) =
     vx (position s) +
     (if isWalking s
      then vz (direction s) * sin (rotation_y s) * (if isRunning s then runSpeed s else speed s)
      else 0)"
  "vz (position (main_move s)) =
     vz (position s) +
     (if isWalking s
      then vz (direction s) * cos (rotation_y s) * (if isRunning s then runSpeed s else speed s)
      else 0)"
  by (simp_all add: main_move_def Let_def applyAxisAngle_Y_def vec_add_def multiplyScalar_def)

lemma xz_animate_main:
  "vx (position (animate_main ks time s)) =
     vx (position s) +
     main_sign ks * sin (rotation_y (main_input ks s)) * main_move_speed ks s"
  "vz (position (animate_main ks time s)) =
     vz (position s) +
     main_sign ks * cos (rotation_y (main_input ks s)) * main_move_speed ks s"
  by (simp_all add: animate_main_def xz_main_move main_input_direction main_move_speed_def
      main_sign_def)

lemma step_forward:
  assumes "rotation_y s = 0" "forward_key ks" "\<not> backward_key ks"
  shows "position (handle_input ks s) =
           vec_add (position s) \<lparr>vx = 0, vy = 0, vz = move_speed ks s\<rparr>"
  using assms by (simp add: position_handle_input facing_def multiplyScalar_def)

lemma step_backward:
  assumes "rotation_y s = 0" "backward_key ks" "\<not> forward_key ks"
  shows "position (handle_input ks s) =
           vec_add (position s) \<lparr>vx = 0, vy = 0, vz = - (move_speed ks s * 0.6)\<rparr>"
  using assms by (simp add: position_handle_input facing_def multiplyScalar_def)

lemma main_forward:
  assumes "rotation_y s = 0" "\<not> ks ''ArrowLeft''" "\<not> ks ''ArrowRight''"
    "ks ''ArrowUp''" "\<not> ks ''ArrowDown''"
  shows "vx (position (animate_main ks time s)) = vx (position s) \<and>
         vz (position (animate_main ks time s)) = vz (position s) - main_move_speed ks s"
  using assms by (simp add: xz_animate_main rotation_main_input main_sign_def)

lemma main_backward:
  assumes "rotation_y s = 0" "\<not> ks ''ArrowLeft''" "\<not> ks ''ArrowRight''" "ks ''ArrowDown''"
  shows "vx (position (animate_main ks time s)) = vx (position s) \<and>
         vz (position (animate_main ks time s)) = vz (position s) + main_move_speed ks s"
  using assms by (simp add: xz_animate_main rotation_main_input main_sign_def)

text \<open>
  Claim C3, as stated, fails in \<^verbatim>\<open>main.js\<close>, one of its sources: on the first frame,
  facing yaw 0, ArrowUp moves the figure by \<open>- speed\<close> along z (not \<open>+ speed\<close>), and
  ArrowDown moves it by \<open>+ speed\<close>, the full speed and not 0.6 of it.
\<close>

theorem forward_displacement_main_counterexample:
  "rotation_y main_init = 0 \<and>
   vz (position (animate_main (no_keys(''ArrowUp'' := True)) 0 main_init)) =
     vz (position main_init) - 0.05 \<and>
   vz (position (animate_main (no_keys(''ArrowUp'' := True)) 0 main_init)) \<noteq>
     vz (position main_init) + speed main_init \<and>
   vz (position (animate_main (no_keys(''ArrowDown'' := True)) 0 main_init)) =
     vz (position main_init) + 0.05 \<and>
   vz (position (animate_main (no_keys(''ArrowDown'' := True)) 0 main_init)) \<noteq>
     vz (position main_init) - speed main_init * 0.6"
  by (simp add: xz_animate_main rotation_main_input main_sign_def main_move_speed_def
      no_keys_def main_init_def zero3_def)

text \<open>
  Claim C3, amended. At yaw 0, in \<^verbatim>\<open>part_000\<close> and \<^verbatim>\<open>part_001\<close>: with a forward key
  held and no backward key, the translation step displaces the position by exactly
  \<open>(0, 0, moveSpeed)\<close>, where \<open>moveSpeed\<close> is \<open>runSpeed\<close> under a Shift key and
  \<open>walkSpeed\<close> otherwise; with a backward key held and no forward key, by exactly
  \<open>(0, 0, - moveSpeed * 0.6)\<close>; over the whole frame the x and z coordinates change by
  just that (the height is set by the vertical steps). In \<^verbatim>\<open>main.js\<close>, at yaw 0 with no
  turn key held, ArrowUp alone changes z by \<open>- moveSpeed\<close> and ArrowDown by
  \<open>+ moveSpeed\<close>, with x unchanged and no factor 0.6.
\<close>

theorem displacement_at_yaw_zero:
  "(rotation_y s = 0 \<and> forward_key kf \<and> \<not> backward_key kf \<longrightarrow>
      position (handle_input kf s) =
        vec_add (position s) \<lparr>vx = 0, vy = 0, vz = move_speed kf s\<rparr> \<and>
      vx (position (animate_plane kf time s)) = vx (position s) \<and>
      vz (position (animate_plane kf time s)) = vz (position s) + move_speed kf s \<and>
      vx (position (animate_mesh pm kf time s)) = vx (position s) \<and>
      vz (position (animate_mesh pm kf time s)) = vz (position s) + move_speed kf s) \<and>
   (rotation_y s = 0 \<and> backward_key kb \<and> \<not> forward_key kb \<longrightarrow>
      position (handle_input kb s) =
        vec_add (position s) \<lparr>vx = 0, vy = 0, vz = - (move_speed kb s * 0.6)\<rparr> \<and>
      vx (position (animate_plane kb time s)) = vx (position s) \<and>
      vz (position (animate_plane kb time s)) = vz (position s) - move_speed kb s * 0.6 \<and>
      vx (position (animate_mesh pm kb time s)) = vx (position s) \<and>
      vz (position (animate_mesh pm kb time s)) = vz (position s) - move_speed kb s * 0.6) \<and>
   (rotation_y ms = 0 \<and> \<not> mf ''ArrowLeft'' \<and> \<not> mf ''ArrowRight'' \<and>
    mf ''ArrowUp'' \<and> \<not> mf ''ArrowDown'' \<longrightarrow>
      vx (position (animate_main mf time ms)) = vx (position ms) \<and>
      vz (position (animate_main mf time ms)) = vz (position ms) - main_move_speed mf ms) \<and>
   (rotation_y ms = 0 \<and> \<not> mb ''ArrowLeft'' \<and> \<not> mb ''ArrowRight'' \<and> mb ''ArrowDown'' \<longrightarrow>
      vx (position (animate_main mb time ms)) = vx (position ms) \<and>
      vz (position (animate_main mb time ms)) = vz (position ms) + main_move_speed mb ms)"
proof -
  have f: "rotation_y s = 0 \<and> forward_key kf \<and> \<not> backward_key kf \<longrightarrow>
      position (handle_input kf s) =
        vec_add (position s) \<lparr>vx = 0, vy = 0, vz = move_speed kf s\<rparr> \<and>
      vx (position (animate_plane kf time s)) = vx (position s) \<and>
      vz (position (animate_plane kf time s)) = vz (position s) + move_speed kf s \<and>
      vx (position (animate_mesh pm kf time s)) = vx (position s) \<and>
      vz (position (animate_mesh pm kf time s)) = vz (position s) + move_speed kf s"
    using step_forward [of s kf] by (simp add: xz_animate_plane xz_animate_mesh)
  have b: "rotation_y s = 0 \<and> backward_key kb \<and> \<not> forward_key kb \<longrightarrow>
      position (handle_input kb s) =
        vec_add (position s) \<lparr>vx = 0, vy = 0, vz = - (move_speed kb s * 0.6)\<rparr> \<and>
      vx (position (animate_plane kb time s)) = vx (position s) \<and>
      vz (position (animate_plane kb time s)) = vz (position s) - move_speed kb s * 0.6 \<and>
      vx (position (animate_mesh pm kb time s)) = vx (position s) \<and>
      vz (position (animate_mesh pm kb time s)) = vz (position s) - move_speed kb s * 0.6"
    using step_backward [of s kb] by (simp add: xz_animate_plane xz_animate_mesh)
  show ?thesis
    using f b main_forward [of ms mf time] main_backward [of ms mb time] by blast
qed

theorem displacement_at_yaw_zero_witness:
  "vz (position (animate_plane (no_keys(''ArrowUp'' := True)) 0 part_init)) = 0.05 \<and>
   vz (position (animate_plane (no_keys(''KeyW'' := True, ''ShiftLeft'' := True)) 0 part_init))
     = 0.12 \<and>
   vz (position (animate_mesh None (no_keys(''KeyS'' := True)) 0 part_init)) = - 0.03 \<and>
   vz (position (animate_main (no_keys(''ArrowUp'' := True)) 0 main_init)) = - 0.05 \<and>
   vz (position (animate_main (no_keys(''ArrowDown'' := True)) 0 main_init)) = 0.05"
proof -
  have y: "rotation_y part_init = 0" "rotation_y main_init = 0"
    by (simp_all add: part_init_def main_init_def)
  have k1: "forward_key (no_keys(''ArrowUp'' := True)) \<and>
            \<not> backward_key (no_keys(''ArrowUp'' := True))"
    by (simp add: forward_key_def backward_key_def no_keys_def)
  have k2: "forward_key (no_keys(''KeyW'' := True, ''ShiftLeft'' := True)) \<and>
            \<not> backward_key (no_keys(''KeyW'' := True, ''ShiftLeft'' := True))"
    by (simp add: forward_key_def backward_key_def no_keys_def)
  have k3: "backward_key (no_keys(''KeyS'' := True)) \<and>
            \<not> forward_key (no_keys(''KeyS'' := True))"
    by (simp add: forward_key_def backward_key_def no_keys_def)
  have k4: "\<not> (no_keys(''ArrowUp'' := True)) ''ArrowLeft'' \<and>
            \<not> (no_keys(''ArrowUp'' := True)) ''ArrowRight'' \<and>
            (no_keys(''ArrowUp'' := True)) ''ArrowUp'' \<and>
            \<not> (no_keys(''ArrowUp'' := True)) ''ArrowDown''"
    by (simp add: no_keys_def)
  have k5: "\<not> (no_keys(''ArrowDown'' := True)) ''ArrowLeft'' \<and>
            \<not> (no_keys(''ArrowDown'' := True)) ''ArrowRight'' \<and>
            (no_keys(''ArrowDown'' := True)) ''ArrowDown''"
    by (simp add: no_keys_def)
  have v: "vz (position part_init) + move_speed (no_keys(''ArrowUp'' := True)) part_init = 0.05"
    "vz (position part_init) +
       move_speed (no_keys(''KeyW'' := True, ''ShiftLeft'' := True)) part_init = 0.12"
    "vz (position part_init) - move_speed (no_keys(''KeyS'' := True)) part_init * 0.6 = - 0.03"
    "vz (position main_init) - main_move_speed (no_keys(''ArrowUp'' := True)) main_init = - 0.05"
    "vz (position main_init) + main_move_speed (no_keys(''ArrowDown'' := True)) main_init = 0.05"
    by (simp_all add: move_speed_def main_move_speed_def run_key_def no_keys_def part_init_def
        main_init_def zero3_def)
  have a: "vz (position (animate_plane (no_keys(''ArrowUp'' := True)) 0 part_init)) =
      vz (position part_init) + move_speed (no_keys(''ArrowUp'' := True)) part_init \<and>
    vz (position (animate_mesh None (no_keys(''KeyS'' := True)) 0 part_init)) =
      vz (position part_init) - move_speed (no_keys(''KeyS'' := True)) part_init * 0.6 \<and>
    vz (position (animate_main (no_keys(''ArrowUp'' := True)) 0 main_init)) =
      vz (position main_init) - main_move_speed (no_keys(''ArrowUp'' := True)) main_init \<and>
    vz (position (animate_main (no_keys(''ArrowDown'' := True)) 0 main_init)) =
      vz (position main_init) + main_move_speed (no_keys(''ArrowDown'' := True)) main_init"
    using displacement_at_yaw_zero [of part_init "no_keys(''ArrowUp'' := True)" 0 None
        "no_keys(''KeyS'' := True)" main_init "no_keys(''ArrowUp'' := True)"
        "no_keys(''ArrowDown'' := True)"] y k1 k3 k4 k5
    by blast
  have b: "vz (position (animate_plane (no_keys(''KeyW'' := True, ''ShiftLeft'' := True)) 0
        part_init)) =
      vz (position part_init) +
        move_speed (no_keys(''KeyW'' := True, ''ShiftLeft'' := True)) part_init"
    using displacement_at_yaw_zero [of part_init
        "no_keys(''KeyW'' := True, ''ShiftLeft'' := True)" 0 None
        "no_keys(''KeyS'' := True)" main_init "no_keys(''ArrowUp'' := True)"
        "no_keys(''ArrowDown'' := True)"] y k2
    by blast
  from a b show ?thesis unfolding v by blast
qed

section \<open>Forward and backward held together\<close>

lemma both_keys_parts:
  assumes "forward_key ks" "backward_key ks"
  shows "position (handle_input ks s) =
           vec_add
             (vec_add (position s) (multiplyScalar (facing (rotation_y s)) (move_speed ks s)))
             (multiplyScalar (facing (rotation_y s)) (- (move_speed ks s * 0.6)))"
  using assms by (simp add: position_handle_input)

lemma both_keys_main:
  assumes "ks ''ArrowUp''" "ks ''ArrowDown''"
  shows "animate_main ks time s = animate_main (ks(''ArrowUp'' := False)) time s"
proof -
  have "main_input ks s = main_input (ks(''ArrowUp'' := False)) s"
    using assms by (simp add: main_input_def Let_def)
  moreover have "main_jumping ks = main_jumping (ks(''ArrowUp'' := False))"
    by (rule ext) (simp add: main_jumping_def)
  ultimately show ?thesis by (simp add: animate_main_def)
qed

text \<open>
  Claim C8, as stated, fails in \<^verbatim>\<open>main.js\<close>, one of its sources: with ArrowUp and
  ArrowDown both held on the first frame, the figure moves by the full \<open>speed\<close> along z,
  which is neither sum of a forward step and a 0.6 backward step.
\<close>

theorem both_keys_main_counterexample:
  "vz (position (animate_main (no_keys(''ArrowUp'' := True, ''ArrowDown'' := True)) 0 main_init))
     = vz (position main_init) + 0.05 \<and>
   vz (position (animate_main (no_keys(''ArrowUp'' := True, ''ArrowDown'' := True)) 0 main_init))
     \<noteq> vz (position main_init) + speed main_init - speed main_init * 0.6 \<and>
   vz (position (animate_main (no_keys(''ArrowUp'' := True, ''ArrowDown'' := True)) 0 main_init))
     \<noteq> vz (position main_init) - speed main_init + speed main_init * 0.6"
  by (simp add: xz_animate_main rotation_main_input main_sign_def main_move_speed_def
      no_keys_def main_init_def zero3_def)

text \<open>
  Claim C8, amended. In \<^verbatim>\<open>part_000\<close> and \<^verbatim>\<open>part_001\<close>, when a forward and a backward
  key are both held, the translation step adds the facing vector times \<open>moveSpeed\<close> and
  then the facing vector times \<open>- moveSpeed * 0.6\<close>, each on its own, and the frame
  leaves the x and z coordinates at that. In \<^verbatim>\<open>main.js\<close> the two keys write one sign,
  ArrowDown last: the frame is the frame of ArrowDown alone, a single step of the full
  \<open>moveSpeed\<close> along the facing vector.
\<close>

theorem both_keys_displacement:
  "(forward_key ks \<and> backward_key ks \<longrightarrow>
      position (handle_input ks s) =
        vec_add
          (vec_add (position s) (multiplyScalar (facing (rotation_y s)) (move_speed ks s)))
          (multiplyScalar (facing (rotation_y s)) (- (move_speed ks s * 0.6))) \<and>
      vx (position (animate_plane ks time s)) = vx (position (handle_input ks s)) \<and>
      vz (position (animate_plane ks time s)) = vz (position (handle_input ks s)) \<and>
      vx (position (animate_mesh pm ks time s)) = vx (position (handle_input ks s)) \<and>
      vz (position (animate_mesh pm ks time s)) = vz (position (handle_input ks s))) \<and>
   (mk ''ArrowUp'' \<and> mk ''ArrowDown'' \<longrightarrow>
      animate_main mk time ms = animate_main (mk(''ArrowUp'' := False)) time ms \<and>
      vx (position (animate_main mk time ms)) =
        vx (position ms) + sin (rotation_y (main_input mk ms)) * main_move_speed mk ms \<and>
      vz (position (animate_main mk time ms)) =
        vz (position ms) + cos (rotation_y (main_input mk ms)) * main_move_speed mk ms)"
proof -
  have p: "forward_key ks \<and> backward_key ks \<longrightarrow>
      position (handle_input ks s) =
        vec_add
          (vec_add (position s) (multiplyScalar (facing (rotation_y s)) (move_speed ks s)))
          (multiplyScalar (facing (rotation_y s)) (- (move_speed ks s * 0.6)))"
    using both_keys_parts [of ks s] by blast
  have q: "mk ''ArrowUp'' \<and> mk ''ArrowDown'' \<longrightarrow>
      animate_main mk time ms = animate_main (mk(''ArrowUp'' := False)) time ms"
    using both_keys_main [of mk time ms] by blast
  have m: "mk ''ArrowUp'' \<and> mk ''ArrowDown'' \<longrightarrow>
      vx (position (animate_main mk time ms)) =
        vx (position ms) + sin (rotation_y (main_input mk ms)) * main_move_speed mk ms \<and>
      vz (position (animate_main mk time ms)) =
        vz (position ms) + cos (rotation_y (main_input mk ms)) * main_move_speed mk ms"
    by (simp add: xz_animate_main main_sign_def)
  from p q m show ?thesis
    by (simp only: xz_animate_plane xz_animate_mesh) blast
qed

theorem both_keys_displacement_witness:
  "vz (position (handle_input (no_keys(''ArrowUp'' := True, ''ArrowDown'' := True)) part_init))
     = 0.02 \<and>
   animate_main (no_keys(''ArrowUp'' := True, ''ArrowDown'' := True)) 0 main_init =
     animate_main (no_keys(''ArrowDown'' := True)) 0 main_init"
proof -
  let ?k = "no_keys(''ArrowUp'' := True, ''ArrowDown'' := True)"
  have k: "forward_key ?k \<and> backward_key ?k" "?k ''ArrowUp'' \<and> ?k ''ArrowDown''"
    by (simp_all add: forward_key_def backward_key_def)
  have e: "?k(''ArrowUp'' := False) = no_keys(''ArrowDown'' := True)"
    by (rule ext) (simp add: no_keys_def)
  have v: "vz (vec_add
          (vec_add (position part_init)
             (multiplyScalar (facing (rotation_y part_init)) (move_speed ?k part_init)))
          (multiplyScalar (facing (rotation_y part_init)) (- (move_speed ?k part_init * 0.6))))
       = 0.02"
    by (simp add: multiplyScalar_def facing_def move_speed_def run_key_def no_keys_def
        part_init_def)
  have t: "position (handle_input ?k part_init) =
        vec_add
          (vec_add (position part_init)
             (multiplyScalar (facing (rotation_y part_init)) (move_speed ?k part_init)))
          (multiplyScalar (facing (rotation_y part_init)) (- (move_speed ?k part_init * 0.6))) \<and>
      animate_main ?k 0 main_init = animate_main (?k(''ArrowUp'' := False)) 0 main_init"
    using both_keys_displacement [of ?k part_init 0 None ?k main_init] k by blast
  from t v e show ?thesis by simp
qed

section \<open>Gait\<close>

lemma gait_angles:
  assumes "isWalking s"
  shows "leftArm (animateWalking time s) =
           sin (time * frequency (isRunning s)) * armAmplitude (isRunning s)"
    and "rightArm (animateWalking time s) =
           - sin (time * frequency (isRunning s)) * armAmplitude (isRunning s)"
    and "leftLeg (animateWalking time s) =
           - sin (time * frequency (isRunning s)) * legAmplitude (isRunning s)"
    and "rightLeg (animateWalking time s) =
           sin (time * frequency (isRunning s)) * legAmplitude (isRunning s)"
  using assms
  by (simp_all add: animateWalking_def Let_def frequency_def armAmplitude_def legAmplitude_def)

lemma pi_ge_three: "3 \<le> pi"
proof -
  have "sin (pi / 6) \<le> pi / 6" by (rule sin_x_le_x) simp
  then show ?thesis by (simp add: sin_30)
qed

lemma sin_three_halves: "1 / 2 \<le> sin (3 / 2 :: real)"
proof -
  have "sin (pi / 6) \<le> sin (3 / 2 :: real)"
  proof (rule sin_monotone_2pi_le)
    show "- (pi / 2) \<le> pi / 6" using pi_gt_zero by linarith
    show "pi / 6 \<le> 3 / 2" using pi_less_4 by linarith
    show "3 / 2 \<le> pi / 2" using pi_ge_three by linarith
  qed
  then show ?thesis by (simp add: sin_30)
qed

lemma first_walk_frame:
  "leftArm (animate_plane (no_keys(''ArrowUp'' := True)) (1 / 2) part_init) = sin (3 / 2) * 0.5"
  "rightLeg (animate_plane (no_keys(''ArrowUp'' := True)) (1 / 2) part_init) = sin (3 / 2) * 0.6"
proof -
  have w: "isWalking (ground_collision (physics (jumping (no_keys(''ArrowUp'' := True))
      (handle_input (no_keys(''ArrowUp'' := True)) part_init))))"
    "\<not> isRunning (ground_collision (physics (jumping (no_keys(''ArrowUp'' := True))
      (handle_input (no_keys(''ArrowUp'' := True)) part_init))))"
    by (simp_all add: walk_key_def forward_key_def run_key_def no_keys_def)
  show "leftArm (animate_plane (no_keys(''ArrowUp'' := True)) (1 / 2) part_init) =
      sin (3 / 2) * 0.5"
    using w by (simp add: animate_plane_def gait_angles frequency_def armAmplitude_def)
  show "rightLeg (animate_plane (no_keys(''ArrowUp'' := True)) (1 / 2) part_init) =
      sin (3 / 2) * 0.6"
    using w by (simp add: animate_plane_def gait_angles frequency_def legAmplitude_def)
qed

text \<open>
  Claim C4, as stated, fails in its second equation: the left arm does not mirror the
  right leg, it swings with it. Half a second into a walk the left arm is at least 1/4
  radian forward while the negated right-leg angle is at most \<open>- 3/10\<close>.
\<close>

theorem gait_arm_leg_counterexample:
  "leftArm (animate_plane (no_keys(''ArrowUp'' := True)) (1 / 2) part_init) \<ge> 1 / 4 \<and>
   - rightLeg (animate_plane (no_keys(''ArrowUp'' := True)) (1 / 2) part_init) \<le> - (3 / 10) \<and>
   leftArm (animate_plane (no_keys(''ArrowUp'' := True)) (1 / 2) part_init) \<noteq>
     - rightLeg (animate_plane (no_keys(''ArrowUp'' := True)) (1 / 2) part_init)"
  using sin_three_halves by (simp add: first_walk_frame)

text \<open>
  Claim C4, amended. While walking, at every clock reading, with \<open>phase = time * 3\<close>
  (\<open>time * 5\<close> under the run flag): the left arm is \<open>sin(phase)\<close> times the arm amplitude
  and the right leg \<open>sin(phase)\<close> times the leg amplitude, so the left arm swings with the
  right leg; the right arm and the left leg are \<open>sin(phase + pi)\<close> times the same
  amplitudes. In real arithmetic \<open>sin(phase + pi) = - sin(phase)\<close>, so the left leg is the
  negative of the right leg and the left arm the negative of the right arm (in the
  program's doubles, up to the rounding of the shifted sine). The amplitudes are 0.5 for
  arms and 0.6 for legs, and 0.8 and 1.0 under the run flag: at one and the same phase,
  whenever \<open>sin(phase)\<close> is not 0, each of the four angles is strictly larger in magnitude
  running than walking.
\<close>

theorem gait_antiphase:
  "(isWalking s \<and> \<not> isRunning s \<longrightarrow>
      leftArm (animateWalking time s) = sin (time * 3) * 0.5 \<and>
      rightArm (animateWalking time s) = sin (time * 3 + pi) * 0.5 \<and>
      leftLeg (animateWalking time s) = sin (time * 3 + pi) * 0.6 \<and>
      rightLeg (animateWalking time s) = sin (time * 3) * 0.6) \<and>
   (isWalking s \<and> isRunning s \<longrightarrow>
      leftArm (animateWalking time s) = sin (time * 5) * 0.8 \<and>
      rightArm (animateWalking time s) = sin (time * 5 + pi) * 0.8 \<and>
      leftLeg (animateWalking time s) = sin (time * 5 + pi) * 1.0 \<and>
      rightLeg (animateWalking time s) = sin (time * 5) * 1.0) \<and>
   (isWalking s \<longrightarrow>
      leftLeg (animateWalking time s) = - rightLeg (animateWalking time s) \<and>
      leftArm (animateWalking time s) = - rightArm (animateWalking time s) \<and>
      0 \<le> leftArm (animateWalking time s) * rightLeg (animateWalking time s) \<and>
      0 \<le> rightArm (animateWalking time s) * leftLeg (animateWalking time s)) \<and>
   (isWalking sw \<and> \<not> isRunning sw \<and> isWalking sr \<and> isRunning sr \<and>
    tr * 5 = tw * 3 \<and> sin (tw * 3) \<noteq> 0 \<longrightarrow>
      \<bar>leftArm (animateWalking tw sw)\<bar> < \<bar>leftArm (animateWalking tr sr)\<bar> \<and>
      \<bar>rightArm (animateWalking tw sw)\<bar> < \<bar>rightArm (animateWalking tr sr)\<bar> \<and>
      \<bar>leftLeg (animateWalking tw sw)\<bar> < \<bar>leftLeg (animateWalking tr sr)\<bar> \<and>
      \<bar>rightLeg (animateWalking tw sw)\<bar> < \<bar>rightLeg (animateWalking tr sr)\<bar>)"
proof -
  have a: "isWalking s \<and> \<not> isRunning s \<longrightarrow>
      leftArm (animateWalking time s) = sin (time * 3) * 0.5 \<and>
      rightArm (animateWalking time s) = sin (time * 3 + pi) * 0.5 \<and>
      leftLeg (animateWalking time s) = sin (time * 3 + pi) * 0.6 \<and>
      rightLeg (animateWalking time s) = sin (time * 3) * 0.6"
    by (simp add: animateWalking_def Let_def)
  have b: "isWalking s \<and> isRunning s \<longrightarrow>
      leftArm (animateWalking time s) = sin (time * 5) * 0.8 \<and>
      rightArm (animateWalking time s) = sin (time * 5 + pi) * 0.8 \<and>
      leftLeg (animateWalking time s) = sin (time * 5 + pi) * 1.0 \<and>
      rightLeg (animateWalking time s) = sin (time * 5) * 1.0"
    by (simp add: animateWalking_def Let_def)
  have sq: "0 \<le> (x * y) * (x * z)" if "0 \<le> y" "0 \<le> z" for x y z :: real
  proof -
    have e: "(x * y) * (x * z) = (x * x) * (y * z)" by (simp add: algebra_simps)
    have "0 \<le> x * x" "0 \<le> y * z" using that by simp_all
    then have "0 \<le> (x * x) * (y * z)" by (rule mult_nonneg_nonneg)
    then show ?thesis by (simp only: e)
  qed
  have c: "isWalking s \<longrightarrow>
      leftLeg (animateWalking time s) = - rightLeg (animateWalking time s) \<and>
      leftArm (animateWalking time s) = - rightArm (animateWalking time s) \<and>
      0 \<le> leftArm (animateWalking time s) * rightLeg (animateWalking time s) \<and>
      0 \<le> rightArm (animateWalking time s) * leftLeg (animateWalking time s)"
  proof (intro impI)
    assume w: "isWalking s"
    note g = gait_angles [OF w, of time]
    have pa: "0 \<le> armAmplitude (isRunning s)" "0 \<le> legAmplitude (isRunning s)"
      by (simp_all add: armAmplitude_def legAmplitude_def)
    have 1: "0 \<le> (sin (time * frequency (isRunning s)) * armAmplitude (isRunning s)) *
        (sin (time * frequency (isRunning s)) * legAmplitude (isRunning s))"
      by (rule sq [OF pa])
    have 2: "0 \<le> (- sin (time * frequency (isRunning s)) * armAmplitude (isRunning s)) *
        (- sin (time * frequency (isRunning s)) * legAmplitude (isRunning s))"
      by (rule sq [OF pa])
    show "leftLeg (animateWalking time s) = - rightLeg (animateWalking time s) \<and>
      leftArm (animateWalking time s) = - rightArm (animateWalking time s) \<and>
      0 \<le> leftArm (animateWalking time s) * rightLeg (animateWalking time s) \<and>
      0 \<le> rightArm (animateWalking time s) * leftLeg (animateWalking time s)"
      unfolding g using 1 2 by simp
  qed
  have lt: "\<bar>x * a\<bar> < \<bar>x * b\<bar>" if "x \<noteq> 0" "0 \<le> a" "a < b" for x a b :: real
  proof -
    have "\<bar>x * a\<bar> = \<bar>x\<bar> * a" "\<bar>x * b\<bar> = \<bar>x\<bar> * b"
      using that by (simp_all add: abs_mult)
    moreover have "\<bar>x\<bar> * a < \<bar>x\<bar> * b"
      using that by (simp add: mult_strict_left_mono)
    ultimately show ?thesis by simp
  qed
  have d: "isWalking sw \<and> \<not> isRunning sw \<and> isWalking sr \<and> isRunning sr \<and>
    tr * 5 = tw * 3 \<and> sin (tw * 3) \<noteq> 0 \<longrightarrow>
      \<bar>leftArm (animateWalking tw sw)\<bar> < \<bar>leftArm (animateWalking tr sr)\<bar> \<and>
      \<bar>rightArm (animateWalking tw sw)\<bar> < \<bar>rightArm (animateWalking tr sr)\<bar> \<and>
      \<bar>leftLeg (animateWalking tw sw)\<bar> < \<bar>leftLeg (animateWalking tr sr)\<bar> \<and>
      \<bar>rightLeg (animateWalking tw sw)\<bar> < \<bar>rightLeg (animateWalking tr sr)\<bar>"
  proof (intro impI)
    assume h: "isWalking sw \<and> \<not> isRunning sw \<and> isWalking sr \<and> isRunning sr \<and>
      tr * 5 = tw * 3 \<and> sin (tw * 3) \<noteq> 0"
    then have n: "sin (tw * 3) \<noteq> 0" and e: "tr * 5 = tw * 3" by simp_all
    have arm: "\<bar>sin (tw * 3) * (5 / 10)\<bar> < \<bar>sin (tw * 3) * (8 / 10)\<bar>"
      by (rule lt [OF n]) simp_all
    have leg: "\<bar>sin (tw * 3) * (6 / 10)\<bar> < \<bar>sin (tw * 3) * 1\<bar>"
      by (rule lt [OF n]) simp_all
    from h arm leg show "\<bar>leftArm (animateWalking tw sw)\<bar> < \<bar>leftArm (animateWalking tr sr)\<bar> \<and>
      \<bar>rightArm (animateWalking tw sw)\<bar> < \<bar>rightArm (animateWalking tr sr)\<bar> \<and>
      \<bar>leftLeg (animateWalking tw sw)\<bar> < \<bar>leftLeg (animateWalking tr sr)\<bar> \<and>
      \<bar>rightLeg (animateWalking tw sw)\<bar> < \<bar>rightLeg (animateWalking tr sr)\<bar>"
      by (simp add: gait_angles frequency_def armAmplitude_def legAmplitude_def e)
  qed
  from a b c d show ?thesis by blast
qed

theorem gait_antiphase_witness:
  "leftArm (animateWalking (1 / 2) (part_init\<lparr>isWalking := True\<rparr>)) = sin ((1 / 2) * 3) * 0.5 \<and>
   rightLeg (animateWalking (1 / 2) (part_init\<lparr>isWalking := True\<rparr>)) = sin ((1 / 2) * 3) * 0.6 \<and>
   leftLeg (animateWalking (1 / 2) (part_init\<lparr>isWalking := True\<rparr>)) =
     - rightLeg (animateWalking (1 / 2) (part_init\<lparr>isWalking := True\<rparr>)) \<and>
   leftArm (animateWalking (3 / 10) (part_init\<lparr>isWalking := True, isRunning := True\<rparr>)) =
     sin ((3 / 10) * 5) * 0.8 \<and>
   \<bar>leftArm (animateWalking (1 / 2) (part_init\<lparr>isWalking := True\<rparr>))\<bar> <
     \<bar>leftArm (animateWalking (3 / 10) (part_init\<lparr>isWalking := True, isRunning := True\<rparr>))\<bar>"
proof -
  let ?W = "part_init\<lparr>isWalking := True\<rparr>"
  let ?R = "part_init\<lparr>isWalking := True, isRunning := True\<rparr>"
  have n: "sin ((1 / 2) * 3 :: real) \<noteq> 0"
    using sin_three_halves by simp
  have h1: "isWalking ?W \<and> \<not> isRunning ?W" by (simp add: part_init_def)
  have h2: "isWalking ?R \<and> isRunning ?R" by simp
  have h3: "isWalking ?W \<and> \<not> isRunning ?W \<and> isWalking ?R \<and> isRunning ?R \<and>
      (3 / 10) * 5 = (1 / 2) * (3::real) \<and> sin ((1 / 2) * 3 :: real) \<noteq> 0"
    using n by (simp add: part_init_def)
  have t1: "leftArm (animateWalking (1 / 2) ?W) = sin ((1 / 2) * 3) * 0.5 \<and>
      rightLeg (animateWalking (1 / 2) ?W) = sin ((1 / 2) * 3) * 0.6 \<and>
      leftLeg (animateWalking (1 / 2) ?W) = - rightLeg (animateWalking (1 / 2) ?W) \<and>
      \<bar>leftArm (animateWalking (1 / 2) ?W)\<bar> < \<bar>leftArm (animateWalking (3 / 10) ?R)\<bar>"
    using gait_antiphase [where s = ?W and time = "1 / 2" and sw = ?W and sr = ?R
        and tw = "1 / 2" and tr = "3 / 10"] h1 h3
    by blast
  have t2: "leftArm (animateWalking (3 / 10) ?R) = sin ((3 / 10) * 5) * 0.8"
    using gait_antiphase [where s = ?R and time = "3 / 10" and sw = ?W and sr = ?R
        and tw = "1 / 2" and tr = "3 / 10"] h2
    by blast
  from t1 t2 show ?thesis by blast
qed

section \<open>Idle pose\<close>

lemma lerp_to_zero: "lerp a 0 0.1 = 9 / 10 * a" "\<bar>lerp a 0 0.1\<bar> \<le> \<bar>a\<bar>"
  by (simp_all add: lerp_def abs_mult)

lemma idle_angles:
  assumes "\<not> isWalking s"
  shows "limbs (animateWalking time s) = map (\<lambda>a. lerp a 0 0.1) (limbs s)"
  using assms by (simp add: animateWalking_def limbs_def)

lemma limbs_before_animation:
  "limbs (ground_collision (physics (jumping ks (handle_input ks s)))) = limbs s"
  "limbs (platform_collision pm (physics (jumping ks (handle_input ks s)))) = limbs s"
  by (simp_all add: limbs_def)

lemma idle_frame_plane:
  "\<not> walk_key ks \<Longrightarrow> limbs (animate_plane ks time s) = map (\<lambda>a. lerp a 0 0.1) (limbs s)"
  by (simp add: animate_plane_def idle_angles limbs_before_animation)

lemma idle_frame_mesh:
  "\<not> walk_key ks \<Longrightarrow> limbs (animate_mesh pm ks time s) = map (\<lambda>a. lerp a 0 0.1) (limbs s)"
  by (simp add: animate_mesh_def idle_angles limbs_before_animation)

lemma idle_run_plane:
  "\<forall>f \<in> set fs. \<not> walk_key (fst f) \<Longrightarrow>
   limbs (run_plane fs s) = map (\<lambda>a. (9 / 10) ^ length fs * a) (limbs s)"
proof (induction fs arbitrary: s)
  case Nil
  then show ?case by simp
next
  case (Cons f fs)
  obtain ks t where f: "f = (ks, t)" by (cases f)
  from Cons.prems have k: "\<not> walk_key ks" and r: "\<forall>f \<in> set fs. \<not> walk_key (fst f)"
    by (simp_all add: f)
  show ?case
    using Cons.IH [OF r, of "animate_plane ks t s"]
    by (simp add: f idle_frame_plane [OF k] lerp_to_zero(1) comp_def)
qed

lemma idle_run_mesh:
  "\<forall>f \<in> set gs. \<not> walk_key (fst (snd f)) \<Longrightarrow>
   limbs (run_mesh gs s) = map (\<lambda>a. (9 / 10) ^ length gs * a) (limbs s)"
proof (induction gs arbitrary: s)
  case Nil
  then show ?case by simp
next
  case (Cons f gs)
  obtain pm ks t where f: "f = (pm, ks, t)" by (cases f)
  from Cons.prems have k: "\<not> walk_key ks"
    and r: "\<forall>f \<in> set gs. \<not> walk_key (fst (snd f))"
    by (simp_all add: f)
  show ?case
    using Cons.IH [OF r, of "animate_mesh pm ks t s"]
    by (simp add: f idle_frame_mesh [OF k] lerp_to_zero(1) comp_def)
qed

lemma damping_small:
  fixes \<epsilon> :: real
  assumes "0 < \<epsilon>"
  shows "\<exists>N. \<forall>n\<ge>N. \<forall>a \<in> set xs. \<bar>(9 / 10) ^ n * a\<bar> < \<epsilon>"
proof (induction xs)
  case Nil
  then show ?case by simp
next
  case (Cons x xs)
  have "(\<lambda>n. (9 / 10 :: real) ^ n) \<longlonglongrightarrow> 0"
    by (rule LIMSEQ_realpow_zero) simp_all
  then have "(\<lambda>n. (9 / 10 :: real) ^ n * x) \<longlonglongrightarrow> 0"
    by (rule tendsto_mult_left_zero)
  then obtain N1 where n1: "\<forall>n\<ge>N1. \<bar>(9 / 10) ^ n * x\<bar> < \<epsilon>"
    using assms by (auto simp: lim_sequentially)
  from Cons.IH obtain N2 where n2: "\<forall>n\<ge>N2. \<forall>a \<in> set xs. \<bar>(9 / 10) ^ n * a\<bar> < \<epsilon>"
    by blast
  have "\<forall>n\<ge>max N1 N2. \<forall>a \<in> set (x # xs). \<bar>(9 / 10) ^ n * a\<bar> < \<epsilon>"
    using n1 n2 by simp
  then show ?case by blast
qed

lemma idle_converges:
  fixes \<epsilon> :: real
  assumes "0 < \<epsilon>"
  shows "\<exists>N. \<forall>fs. N \<le> length fs \<and> (\<forall>f \<in> set fs. \<not> walk_key (fst f)) \<longrightarrow>
           (\<forall>a \<in> set (limbs (run_plane fs s)). \<bar>a\<bar> < \<epsilon>)"
proof -
  from damping_small [OF assms, of "limbs s"]
  obtain N where n: "\<forall>n\<ge>N. \<forall>a \<in> set (limbs s). \<bar>(9 / 10) ^ n * a\<bar> < \<epsilon>"
    by blast
  have "\<forall>a \<in> set (limbs (run_plane fs s)). \<bar>a\<bar> < \<epsilon>"
    if "N \<le> length fs" "\<forall>f \<in> set fs. \<not> walk_key (fst f)" for fs
    using n that by (simp add: idle_run_plane)
  then show ?thesis by blast
qed

lemma main_flags_before_limbs:
  "isWalking (main_ground (main_move (main_gravity (main_jumping ks (main_input ks s))))) =
     (ks ''ArrowUp'' \<or> ks ''ArrowDown'')"
  "isRunning (main_ground (main_move (main_gravity (main_jumping ks (main_input ks s))))) =
     ks ''Shift''"
  by (simp_all add: main_ground_def main_move_def Let_def)

lemma limbs_main:
  "limbs (animate_main ks time s) =
     (if ks ''ArrowUp'' \<or> ks ''ArrowDown''
      then [sin (time * (if ks ''Shift'' then 2.5 else 1.5)) * 0.7,
            sin (time * (if ks ''Shift'' then 2.5 else 1.5) + pi) * 0.7,
            sin (time * (if ks ''Shift'' then 2.5 else 1.5) + pi) * 0.7,
            sin (time * (if ks ''Shift'' then 2.5 else 1.5)) * 0.7]
      else [0, 0, 0, 0])"
  by (simp add: animate_main_def animateStickmanLimbs_def Let_def limbs_def
      main_flags_before_limbs)

text \<open>
  Claim C7, as stated, fails in \<^verbatim>\<open>main.js\<close>, one of its sources: after one walking
  frame the left arm is raised, and the first idle frame sets it to 0 at once, not to
  \<open>lerp(old, 0, 0.1)\<close>.
\<close>

theorem idle_main_counterexample:
  "limbs (animate_main no_keys 2 (animate_main (no_keys(''ArrowUp'' := True)) 1 main_init)) =
     [0, 0, 0, 0] \<and>
   0 < lerp (hd (limbs (animate_main (no_keys(''ArrowUp'' := True)) 1 main_init))) 0 0.1 \<and>
   hd (limbs (animate_main no_keys 2 (animate_main (no_keys(''ArrowUp'' := True)) 1 main_init)))
     \<noteq> lerp (hd (limbs (animate_main (no_keys(''ArrowUp'' := True)) 1 main_init))) 0 0.1"
proof -
  have p: "0 < sin (3 / 2 :: real)" using sin_three_halves by linarith
  show ?thesis
    using p by (simp add: limbs_main no_keys_def lerp_to_zero(1))
qed

text \<open>
  Claim C7, amended. In \<^verbatim>\<open>part_000\<close> and \<^verbatim>\<open>part_001\<close>, in every frame with no forward
  or backward key held, each of the four joint angles becomes \<open>lerp(old, 0, 0.1)\<close>, that
  is 0.9 times the old angle, never larger in magnitude; after any run of N such frames
  each angle is \<open>0.9 ^ N\<close> times its start value, and for every tolerance there is a
  number of frames after which all four stay within it. In \<^verbatim>\<open>main.js\<close> a frame with
  neither ArrowUp nor ArrowDown held sets all four angles to 0 at once.
\<close>

theorem idle_smoothing:
  "(\<not> walk_key ks \<longrightarrow>
      limbs (animate_plane ks time s) = map (\<lambda>a. lerp a 0 0.1) (limbs s) \<and>
      limbs (animate_mesh pm ks time s) = map (\<lambda>a. lerp a 0 0.1) (limbs s)) \<and>
   lerp a 0 0.1 = 9 / 10 * a \<and> \<bar>lerp a 0 0.1\<bar> \<le> \<bar>a\<bar> \<and>
   ((\<forall>f \<in> set fs. \<not> walk_key (fst f)) \<longrightarrow>
      limbs (run_plane fs s) = map (\<lambda>a. (9 / 10) ^ length fs * a) (limbs s)) \<and>
   ((\<forall>f \<in> set gs. \<not> walk_key (fst (snd f))) \<longrightarrow>
      limbs (run_mesh gs s) = map (\<lambda>a. (9 / 10) ^ length gs * a) (limbs s)) \<and>
   (0 < \<epsilon> \<longrightarrow>
      (\<exists>N. \<forall>fs'. N \<le> length fs' \<and> (\<forall>f \<in> set fs'. \<not> walk_key (fst f)) \<longrightarrow>
         (\<forall>a \<in> set (limbs (run_plane fs' s)). \<bar>a\<bar> < \<epsilon>))) \<and>
   (\<not> mk ''ArrowUp'' \<and> \<not> mk ''ArrowDown'' \<longrightarrow>
      limbs (animate_main mk time ms) = [0, 0, 0, 0])"
proof -
  have m: "\<not> mk ''ArrowUp'' \<and> \<not> mk ''ArrowDown'' \<longrightarrow>
      limbs (animate_main mk time ms) = [0, 0, 0, 0]"
    by (simp add: limbs_main)
  show ?thesis
    using idle_frame_plane [of ks time s] idle_frame_mesh [of ks pm time s]
      lerp_to_zero [of a] idle_run_plane [of fs s] idle_run_mesh [of gs s]
      idle_converges [of \<epsilon> s] m
    by blast
qed

theorem idle_smoothing_witness:
  "limbs (animate_plane no_keys 0 (part_init\<lparr>leftArm := 1 / 2, rightLeg := 3 / 5\<rparr>)) =
     map (\<lambda>a. lerp a 0 0.1) (limbs (part_init\<lparr>leftArm := 1 / 2, rightLeg := 3 / 5\<rparr>)) \<and>
   limbs (run_plane [(no_keys, 0), (no_keys(''Space'' := True), 1)]
       (part_init\<lparr>leftArm := 1 / 2, rightLeg := 3 / 5\<rparr>)) =
     map (\<lambda>a. (9 / 10) ^ length [(no_keys, 0::real), (no_keys(''Space'' := True), 1)] * a)
       (limbs (part_init\<lparr>leftArm := 1 / 2, rightLeg := 3 / 5\<rparr>)) \<and>
   limbs (run_mesh [(None, no_keys, 0)] (part_init\<lparr>leftArm := 1 / 2, rightLeg := 3 / 5\<rparr>)) =
     map (\<lambda>a. (9 / 10) ^ length [(None :: mesh option, no_keys, 0::real)] * a)
       (limbs (part_init\<lparr>leftArm := 1 / 2, rightLeg := 3 / 5\<rparr>)) \<and>
   (\<exists>N. \<forall>fs'. N \<le> length fs' \<and> (\<forall>f \<in> set fs'. \<not> walk_key (fst f)) \<longrightarrow>
      (\<forall>a \<in> set (limbs (run_plane fs' (part_init\<lparr>leftArm := 1 / 2, rightLeg := 3 / 5\<rparr>))).
         \<bar>a\<bar> < 1 / 100)) \<and>
   limbs (animate_main no_keys 0 (main_init\<lparr>leftArm := 1 / 2\<rparr>)) = [0, 0, 0, 0]"
proof -
  have h1: "\<not> walk_key no_keys"
    by (simp add: walk_key_def forward_key_def backward_key_def no_keys_def)
  have h2: "\<forall>f \<in> set [(no_keys, 0::real), (no_keys(''Space'' := True), 1)]. \<not> walk_key (fst f)"
    by (simp add: walk_key_def forward_key_def backward_key_def no_keys_def)
  have h3: "\<forall>f \<in> set [(None :: mesh option, no_keys, 0::real)]. \<not> walk_key (fst (snd f))"
    by (simp add: walk_key_def forward_key_def backward_key_def no_keys_def)
  have h4: "(0::real) < 1 / 100" by simp
  have h5: "\<not> no_keys ''ArrowUp'' \<and> \<not> no_keys ''ArrowDown''" by (simp add: no_keys_def)
  show ?thesis
    using idle_smoothing [of no_keys 0 "part_init\<lparr>leftArm := 1 / 2, rightLeg := 3 / 5\<rparr>" None 0
        "[(no_keys, 0), (no_keys(''Space'' := True), 1)]" "[(None, no_keys, 0)]" "1 / 100"
        no_keys "main_init\<lparr>leftArm := 1 / 2\<rparr>"] h1 h2 h3 h4 h5
    by blast
qed

section \<open>Body bob\<close>

lemma walking_height:
  "isWalking s \<Longrightarrow>
   vy (position (animateWalking time s)) =
     groundLevel s + \<bar>sin (time * (if isRunning s then 5 else 3) * 2)\<bar> * 0.05"
  by (simp add: animateWalking_def Let_def)

lemma standing_height: "\<not> isWalking s \<Longrightarrow> position (animateWalking time s) = position s"
  by (simp add: animateWalking_def)

lemma flags_before_animation [simp]:
  "isWalking (ground_collision (physics (jumping ks (handle_input ks s)))) = walk_key ks"
  "isRunning (ground_collision (physics (jumping ks (handle_input ks s)))) = run_key ks"
  "isWalking (platform_collision pm (physics (jumping ks (handle_input ks s)))) = walk_key ks"
  "isRunning (platform_collision pm (physics (jumping ks (handle_input ks s)))) = run_key ks"
  by simp_all


lemma bob_mesh:
  "walk_key ks \<Longrightarrow>
   vy (position (animate_mesh pm ks time s)) =
     groundLevel (animate_mesh pm ks time s) + body_bob ks time"
  by (simp add: animate_mesh_def walking_height body_bob_def)

lemma groundLevel_unloaded [simp]:
  "groundLevel (animate_mesh None ks time s) = groundLevel s"
  by (simp add: animate_mesh_def platform_collision_def)

lemma walk_key_space [simp]:
  "walk_key (ks(''Space'' := b)) = walk_key ks"
  "run_key (ks(''Space'' := b)) = run_key ks"
  "body_bob (ks(''Space'' := b)) time = body_bob ks time"
  by (simp_all add: walk_key_def forward_key_def backward_key_def run_key_def body_bob_def)




section \<open>Snap to the mesh\<close>

lemma hits_on_ray:
  "h \<in> set (intersectObject origin m) \<longleftrightarrow>
     h \<in> set (m (vx origin) (vz origin)) \<and> h \<le> vy origin"
  by (auto simp: intersectObject_def)

lemma hits_nearest_first:
  "intersectObject origin m = contactY # rest \<Longrightarrow> \<forall>h \<in> set rest. h \<le> contactY"
proof -
  assume a: "intersectObject origin m = contactY # rest"
  have "sorted_wrt (\<lambda>x y. y \<le> x) (intersectObject origin m)"
    by (simp add: intersectObject_def sorted_wrt_rev)
  with a show ?thesis by simp
qed

lemma ray_origin:
  "vx (vec_add (position s) \<lparr>vx = 0, vy = 1, vz = 0\<rparr>) = vx (position s)"
  "vy (vec_add (position s) \<lparr>vx = 0, vy = 1, vz = 0\<rparr>) = vy (position s) + 1"
  "vz (vec_add (position s) \<lparr>vx = 0, vy = 1, vz = 0\<rparr>) = vz (position s)"
  by simp_all

lemma surface_above_undetected:
  assumes "\<forall>h \<in> set (m (vx (position s)) (vz (position s))). vy (position s) + 1 < h"
  shows "platform_collision (Some m) s = s"
proof -
  have "intersectObject (vec_add (position s) \<lparr>vx = 0, vy = 1, vz = 0\<rparr>) m = []"
  proof (cases "intersectObject (vec_add (position s) \<lparr>vx = 0, vy = 1, vz = 0\<rparr>) m")
    case Nil
    then show ?thesis .
  next
    case (Cons c r)
    then have "c \<in> set (intersectObject (vec_add (position s) \<lparr>vx = 0, vy = 1, vz = 0\<rparr>) m)"
      by simp
    then have "c \<in> set (m (vx (position s)) (vz (position s)))" "c \<le> vy (position s) + 1"
      by (simp_all add: hits_on_ray)
    with assms show ?thesis by fastforce
  qed
  then show ?thesis by (simp add: platform_collision_def)
qed

lemma snap_to_contact:
  assumes "intersectObject (vec_add (position s) \<lparr>vx = 0, vy = 1, vz = 0\<rparr>) m = contactY # rest"
    and "vy (position s) \<le> contactY + 0.01"
  shows "vy (position (platform_collision (Some m) s)) = contactY"
    and "vy (velocity (platform_collision (Some m) s)) = 0"
    and "\<not> isJumping (platform_collision (Some m) s)"
    and "groundLevel (platform_collision (Some m) s) = contactY"
    and "contactY - vy (position s) \<le> 1"
proof -
  show "vy (position (platform_collision (Some m) s)) = contactY"
    "vy (velocity (platform_collision (Some m) s)) = 0"
    "\<not> isJumping (platform_collision (Some m) s)"
    "groundLevel (platform_collision (Some m) s) = contactY"
    using assms by (simp_all add: platform_collision_def Let_def)
  have "contactY \<in> set (intersectObject (vec_add (position s) \<lparr>vx = 0, vy = 1, vz = 0\<rparr>) m)"
    using assms(1) by simp
  then have "contactY \<le> vy (position s) + 1"
    by (simp add: hits_on_ray)
  then show "contactY - vy (position s) \<le> 1" by simp
qed

text \<open>
  Claim C10. In \<^verbatim>\<open>part_000\<close> the ray starts exactly one unit above the figure and points
  down, so every height it reports is a height of the mesh at or below that origin,
  nearest (highest) first; a mesh whose heights under the figure are all more than one unit
  above it gives no hit and the step changes nothing. Whenever the first hit has
  \<open>position.y \<le> contactY + 0.01\<close>, the step sets the height to \<open>contactY\<close> in that one
  frame, zeroes the vertical velocity and clears the jump flag; the contact may be above
  the figure, and the lift is at most one unit.
\<close>

theorem snap_up_window:
  "(h \<in> set (intersectObject (vec_add (position s) \<lparr>vx = 0, vy = 1, vz = 0\<rparr>) m) \<longrightarrow>
      h \<in> set (m (vx (position s)) (vz (position s))) \<and> h \<le> vy (position s) + 1) \<and>
   ((\<forall>h \<in> set (m' (vx (position s)) (vz (position s))). vy (position s) + 1 < h) \<longrightarrow>
      platform_collision (Some m') s = s) \<and>
   (intersectObject (vec_add (position s) \<lparr>vx = 0, vy = 1, vz = 0\<rparr>) m = contactY # rest \<and>
    vy (position s) \<le> contactY + 0.01 \<longrightarrow>
      (\<forall>h \<in> set rest. h \<le> contactY) \<and>
      vy (position (platform_collision (Some m) s)) = contactY \<and>
      vy (velocity (platform_collision (Some m) s)) = 0 \<and>
      \<not> isJumping (platform_collision (Some m) s) \<and>
      contactY - vy (position s) \<le> 1)"
proof -
  have a: "h \<in> set (intersectObject (vec_add (position s) \<lparr>vx = 0, vy = 1, vz = 0\<rparr>) m) \<longrightarrow>
      h \<in> set (m (vx (position s)) (vz (position s))) \<and> h \<le> vy (position s) + 1"
    by (simp add: hits_on_ray)
  show ?thesis
    using a surface_above_undetected [of m' s] snap_to_contact [of s m contactY rest]
      hits_nearest_first [of "vec_add (position s) \<lparr>vx = 0, vy = 1, vz = 0\<rparr>" m contactY rest]
    by blast
qed

theorem snap_up_window_witness:
  "vy (position (platform_collision (Some (\<lambda>x z. [legLength + 1, 0, 5])) part_init)) =
     legLength + 1 \<and>
   vy (velocity (platform_collision (Some (\<lambda>x z. [legLength + 1, 0, 5])) part_init)) = 0 \<and>
   platform_collision (Some (\<lambda>x z. [legLength + 2])) part_init = part_init"
proof -
  have h1: "intersectObject (vec_add (position part_init) \<lparr>vx = 0, vy = 1, vz = 0\<rparr>)
        (\<lambda>x z. [legLength + 1, 0, 5]) = (legLength + 1) # [0] \<and>
      vy (position part_init) \<le> (legLength + 1) + 0.01"
    by (simp add: intersectObject_def part_init_def legLength_def)
  have h2: "\<forall>h \<in> set ((\<lambda>x z. [legLength + 2]) (vx (position part_init))
        (vz (position part_init))). vy (position part_init) + 1 < h"
    by (simp add: part_init_def)
  have h3: "legLength + 1 \<in> set (intersectObject
        (vec_add (position part_init) \<lparr>vx = 0, vy = 1, vz = 0\<rparr>)
        (\<lambda>x z. [legLength + 1, 0, 5]))"
    using h1 by simp
  show ?thesis
    using snap_up_window [of "legLength + 1" part_init "\<lambda>x z. [legLength + 1, 0, 5]"
        "\<lambda>x z. [legLength + 2]" "legLength + 1" "[0]"] h1 h2 h3
    by blast
qed

section \<open>Free fall before the mesh has loaded\<close>

lemma physics_vertical:
  "vy (velocity (physics s)) = vy (velocity s) + gravity s + jumpForce s"
  "vy (position (physics s)) = vy (position s) + vy (velocity s) + gravity s + jumpForce s"
  by (simp_all add: physics_def Let_def)

lemma unloaded_frame_flag:
  "isJumping (animate_mesh None ks time s) = (isJumping s \<or> ks ''Space'')"
  by (auto simp: animate_mesh_def platform_collision_def jumping_def)

lemma unloaded_run_keeps:
  "\<forall>f \<in> set gs. fst f = None \<Longrightarrow>
   (isJumping s \<longrightarrow> isJumping (run_mesh gs s)) \<and> groundLevel (run_mesh gs s) = groundLevel s"
proof (induction gs arbitrary: s)
  case Nil
  then show ?case by simp
next
  case (Cons f gs)
  obtain pm ks t where f: "f = (pm, ks, t)" by (cases f)
  from Cons.prems have n: "pm = None" and r: "\<forall>f \<in> set gs. fst f = None"
    by (simp_all add: f)
  show ?case
    using Cons.IH [OF r, of "animate_mesh None ks t s"]
    by (simp add: f n unloaded_frame_flag)
qed

lemma free_fall_step:
  assumes "\<not> walk_key ks" "\<not> ks ''Space''" "jumpForce s = 0"
  shows "vy (velocity (animate_mesh None ks time s)) = vy (velocity s) + gravity s"
    and "vy (position (animate_mesh None ks time s)) =
           vy (position s) + vy (velocity s) + gravity s"
    and "jumpForce (animate_mesh None ks time s) = 0"
    and "gravity (animate_mesh None ks time s) = gravity s"
  using assms
  by (simp_all add: animate_mesh_def platform_collision_def standing_height physics_vertical
      jumping_def)

lemma free_fall_run:
  "\<forall>f \<in> set gs. free_fall_frame f \<Longrightarrow> jumpForce s = 0 \<Longrightarrow>
   vy (velocity (run_mesh gs s)) = vy (velocity s) + real (length gs) * gravity s \<and>
   vy (position (run_mesh gs s)) =
     vy (position s) + real (length gs) * vy (velocity s) +
     gravity s * (real (length gs) * (real (length gs) + 1) / 2)"
proof (induction gs arbitrary: s)
  case Nil
  then show ?case by simp
next
  case (Cons f gs)
  obtain pm ks t where f: "f = (pm, ks, t)" by (cases f)
  from Cons.prems have n: "pm = None" and k: "\<not> walk_key ks" "\<not> ks ''Space''"
    and r: "\<forall>f \<in> set gs. free_fall_frame f"
    by (simp_all add: f free_fall_frame_def)
  note st = free_fall_step [OF k Cons.prems(2), of t]
  from Cons.IH [OF r st(3)]
  show ?case
    by (simp add: f n st algebra_simps)
qed

lemma free_fall_lower:
  assumes "\<forall>f \<in> set gs. free_fall_frame f" "jumpForce s = 0" "gravity s < 0"
    "vy (velocity s) \<le> 0" "gs \<noteq> []"
  shows "vy (position (run_mesh gs s)) < vy (position s)"
proof -
  have n: "0 < real (length gs)" using assms(5) by simp
  have a: "real (length gs) * vy (velocity s) \<le> 0"
    using n assms(4) by (simp add: mult_nonneg_nonpos)
  have "0 < real (length gs) * (real (length gs) + 1) / 2" using n by simp
  then have b: "gravity s * (real (length gs) * (real (length gs) + 1) / 2) < 0"
    using assms(3) by (simp add: mult_neg_pos)
  from free_fall_run [OF assms(1,2)] a b show ?thesis by linarith
qed

text \<open>
  Claim C5, as stated, fails for two kinds of frames. On the first frame of \<^verbatim>\<open>part_000\<close>
  with no mesh loaded, a Space press raises the figure, and a forward key (at a clock
  reading where the bob is 0) leaves it at its starting height, also over three such
  frames: the height does not strictly decrease.
\<close>

theorem free_fall_keys_counterexample:
  "vy (position part_init) <
     vy (position (animate_mesh None (no_keys(''Space'' := True)) 0 part_init)) \<and>
   vy (position (animate_mesh None (no_keys(''ArrowUp'' := True)) 0 part_init)) =
     vy (position part_init) \<and>
   vy (position (run_mesh
      [(None, no_keys(''ArrowUp'' := True), 0), (None, no_keys(''ArrowUp'' := True), 0),
       (None, no_keys(''ArrowUp'' := True), 0)] part_init)) = vy (position part_init)"
proof -
  have w: "walk_key (no_keys(''ArrowUp'' := True))"
    "\<not> walk_key (no_keys(''Space'' := True))"
    by (simp_all add: walk_key_def forward_key_def backward_key_def no_keys_def)
  have b: "body_bob (no_keys(''ArrowUp'' := True)) 0 = 0" by (simp add: body_bob_def)
  have j: "vy (position (animate_mesh None (no_keys(''Space'' := True)) 0 part_init)) =
      legLength + 0.28"
    using w(2)
    by (simp add: animate_mesh_def platform_collision_def standing_height physics_vertical
        jumping_def part_init_def zero3_def)
  have g: "groundLevel part_init = legLength" "vy (position part_init) = legLength"
    by (simp_all add: part_init_def)
  show ?thesis
    using w(1) by (simp add: j bob_mesh b g)
qed

text \<open>
  Claim C5, amended. In \<^verbatim>\<open>part_000\<close>, while the mesh is not loaded, contact resolution
  does nothing in any frame: the ground level is never updated and the jump flag, once
  set, is never cleared. Over N such frames in which no forward, backward or jump key is
  held, the vertical velocity is \<open>v + N * gravity\<close> and the height is
  \<open>y + N * v + gravity * N * (N + 1) / 2\<close>; with negative gravity and a start velocity that
  is not upward, the height after any N \<ge> 1 frames is strictly below the start height.
\<close>

theorem free_fall_unloaded:
  "platform_collision None s = s \<and>
   ((\<forall>f \<in> set gs. fst f = None) \<longrightarrow>
      (isJumping s \<longrightarrow> isJumping (run_mesh gs s)) \<and>
      groundLevel (run_mesh gs s) = groundLevel s) \<and>
   ((\<forall>f \<in> set gs. free_fall_frame f) \<and> jumpForce s = 0 \<longrightarrow>
      vy (velocity (run_mesh gs s)) = vy (velocity s) + real (length gs) * gravity s \<and>
      vy (position (run_mesh gs s)) =
        vy (position s) + real (length gs) * vy (velocity s) +
        gravity s * (real (length gs) * (real (length gs) + 1) / 2)) \<and>
   ((\<forall>f \<in> set gs. free_fall_frame f) \<and> jumpForce s = 0 \<and> gravity s < 0 \<and>
    vy (velocity s) \<le> 0 \<and> gs \<noteq> [] \<longrightarrow>
      vy (position (run_mesh gs s)) < vy (position s))"
proof -
  have a: "platform_collision None s = s" by (simp add: platform_collision_def)
  show ?thesis
    using a unloaded_run_keeps [of gs s] free_fall_run [of gs s] free_fall_lower [of gs s]
    by blast
qed

theorem free_fall_unloaded_witness:
  "vy (position (run_mesh
      [(None, no_keys, 0), (None, no_keys(''ArrowLeft'' := True), 1), (None, no_keys, 2)]
      part_init)) = legLength - 0.12 \<and>
   vy (velocity (run_mesh
      [(None, no_keys, 0), (None, no_keys(''ArrowLeft'' := True), 1), (None, no_keys, 2)]
      part_init)) = - 0.06 \<and>
   vy (position (run_mesh
      [(None, no_keys, 0), (None, no_keys(''ArrowLeft'' := True), 1), (None, no_keys, 2)]
      part_init)) < vy (position part_init) \<and>
   groundLevel (run_mesh
      [(None, no_keys, 0), (None, no_keys(''ArrowLeft'' := True), 1), (None, no_keys, 2)]
      part_init) = legLength"
  (is "vy (position (run_mesh ?gs part_init)) = _ \<and> _ \<and> _ \<and> _")
proof -
  have h1: "\<forall>f \<in> set ?gs. fst f = None" by simp
  have h2: "(\<forall>f \<in> set ?gs. free_fall_frame f) \<and> jumpForce part_init = 0 \<and>
      gravity part_init < 0 \<and> vy (velocity part_init) \<le> 0 \<and> ?gs \<noteq> []"
    by (simp add: free_fall_frame_def walk_key_def forward_key_def backward_key_def no_keys_def
        part_init_def zero3_def)
  have v: "vy (velocity part_init) + real (length ?gs) * gravity part_init = - 0.06"
    "vy (position part_init) + real (length ?gs) * vy (velocity part_init) +
       gravity part_init * (real (length ?gs) * (real (length ?gs) + 1) / 2) = legLength - 0.12"
    "groundLevel part_init = legLength"
    by (simp_all add: part_init_def zero3_def)
  have t: "vy (position (run_mesh ?gs part_init)) =
        vy (position part_init) + real (length ?gs) * vy (velocity part_init) +
        gravity part_init * (real (length ?gs) * (real (length ?gs) + 1) / 2) \<and>
      vy (velocity (run_mesh ?gs part_init)) =
        vy (velocity part_init) + real (length ?gs) * gravity part_init \<and>
      vy (position (run_mesh ?gs part_init)) < vy (position part_init) \<and>
      groundLevel (run_mesh ?gs part_init) = groundLevel part_init"
    using free_fall_unloaded [of part_init ?gs] h1 h2 by blast
  then show ?thesis unfolding v .
qed

section \<open>Ground clamp\<close>









lemma gravity_animate_plane [simp]: "gravity (animate_plane ks time s) = gravity s"
  by (simp add: animate_plane_def)












end
